theory Spec2Isabelle
  imports Main "HOL-Library.Log_Nat"
begin

section \<open>Numbers\<close>

text \<open>
  The services convert the \<open>BigInt\<close> columns that hold token amounts with \<open>Number\<close>,
  compute on IEEE-754 double-precision numbers and convert the results back with
  \<open>BigInt\<close>. Every number that occurs this way is an integer, a signed zero, an infinity
  or \<open>NaN\<close>: a product, sum or difference of integers is rounded to a double that is
  again an integer, and every quotient of amounts goes through \<open>Math.floor\<close>. \<open>Num a\<close> is the
  double whose value is the integer \<open>a\<close>, with \<open>Num 0\<close> the positive zero.

  Unix timestamps, durations in months, the epoch counter and the multipliers are kept as
  unbounded \<open>int\<close>: they come from clock readings, which \<open>Date\<close> bounds by
  \<open>8.64 * 10^15\<close> milliseconds, from 32-bit columns and from configured periods, and their
  sums and differences stay below \<open>2^53\<close>, where double arithmetic is exact.
\<close>

datatype jsnum = Num int | NegZero | PosInf | NegInf | NaN

fun negative :: "jsnum \<Rightarrow> bool" where
  "negative (Num a) = (a < 0)"
| "negative NegZero = True"
| "negative PosInf = False"
| "negative NegInf = True"
| "negative NaN = False"

fun isZero :: "jsnum \<Rightarrow> bool" where
  "isZero (Num a) = (a = 0)"
| "isZero NegZero = True"
| "isZero other = False"

fun isInf :: "jsnum \<Rightarrow> bool" where
  "isInf PosInf = True"
| "isInf NegInf = True"
| "isInf other = False"

fun valueOf :: "jsnum \<Rightarrow> int" where
  "valueOf (Num a) = a"
| "valueOf other = 0"

definition signedZero :: "bool \<Rightarrow> jsnum" where
  "signedZero neg = (if neg then NegZero else Num 0)"

definition signedInf :: "bool \<Rightarrow> jsnum" where
  "signedInf neg = (if neg then NegInf else PosInf)"

text \<open>
  The quotient \<open>n / d\<close> of a non-negative \<open>n\<close> by a positive \<open>d\<close>, rounded to the
  nearest integer, a tie going to the even one.
\<close>

definition roundHalfEven :: "int \<Rightarrow> int \<Rightarrow> int" where
  "roundHalfEven n d =
     (let q = n div d; r = n mod d
      in if 2 * r < d then q
         else if d < 2 * r then q + 1
         else if even q then q else q + 1)"

text \<open>
  The double nearest to an integer: the integer keeps its 53 leading bits, rounded to
  nearest with ties to even.
\<close>

definition roundToDouble :: "int \<Rightarrow> int" where
  "roundToDouble x =
     (let n = \<bar>x\<bar>;
          k = nat (bitlen n - 53);
          r = roundHalfEven n (2 ^ k) * 2 ^ k
      in if x < 0 then - r else r)"

text \<open>
  \<open>Number(x)\<close> for a \<open>BigInt\<close> \<open>x\<close>, and the rounding of an exact integer result; a
  magnitude that rounds to \<open>2^1024\<close> overflows to an infinity.
\<close>

definition toNumber :: "int \<Rightarrow> jsnum" where
  "toNumber x =
     (let r = roundToDouble x
      in if 2 ^ 1024 \<le> \<bar>r\<bar> then signedInf (x < 0) else Num r)"

text \<open>\<open>BigInt(x)\<close>: a \<open>RangeError\<close> on an infinity and on \<open>NaN\<close>.\<close>

fun toBigInt :: "jsnum \<Rightarrow> int option" where
  "toBigInt (Num a) = Some a"
| "toBigInt NegZero = Some 0"
| "toBigInt other = None"

text \<open>\<open>x * y\<close>.\<close>

definition jsMul :: "jsnum \<Rightarrow> jsnum \<Rightarrow> jsnum" where
  "jsMul x y =
     (if x = NaN \<or> y = NaN then NaN
      else if isInf x \<or> isInf y
      then (if isZero x \<or> isZero y then NaN else signedInf (negative x \<noteq> negative y))
      else if valueOf x * valueOf y = 0 then signedZero (negative x \<noteq> negative y)
      else toNumber (valueOf x * valueOf y))"

text \<open>\<open>- x\<close>.\<close>

fun jsNeg :: "jsnum \<Rightarrow> jsnum" where
  "jsNeg (Num a) = (if a = 0 then NegZero else Num (- a))"
| "jsNeg NegZero = Num 0"
| "jsNeg PosInf = NegInf"
| "jsNeg NegInf = PosInf"
| "jsNeg NaN = NaN"

text \<open>\<open>x + y\<close>; a zero sum is negative only when both terms are the negative zero.\<close>

definition jsAdd :: "jsnum \<Rightarrow> jsnum \<Rightarrow> jsnum" where
  "jsAdd x y =
     (if x = NaN \<or> y = NaN then NaN
      else if isInf x then (if isInf y \<and> y \<noteq> x then NaN else x)
      else if isInf y then y
      else if x = NegZero \<and> y = NegZero then NegZero
      else toNumber (valueOf x + valueOf y))"

text \<open>\<open>x - y\<close>.\<close>

definition jsSub :: "jsnum \<Rightarrow> jsnum \<Rightarrow> jsnum" where
  "jsSub x y = jsAdd x (jsNeg y)"

text \<open>
  The binary exponent of the quotient of two positive integers: the \<open>e\<close> with
  \<open>2^e \<le> a / b < 2^(e + 1)\<close>.
\<close>

definition quotientExponent :: "int \<Rightarrow> int \<Rightarrow> int" where
  "quotientExponent a b =
     (let d = bitlen a - bitlen b
      in if (if 0 \<le> d then b * 2 ^ nat d \<le> a else b \<le> a * 2 ^ nat (- d)) then d
         else d - 1)"

text \<open>
  \<open>Math.floor(a / b)\<close> for non-zero integers: the quotient is rounded to 53 significant
  bits, and then floored. With the exponent at 52 or above the rounded quotient is an
  integer; below, it is a multiple of \<open>2^(e - 52)\<close>.
\<close>

definition floorQuotient :: "int \<Rightarrow> int \<Rightarrow> int" where
  "floorQuotient a b =
     (let neg = ((a < 0) \<noteq> (b < 0));
          n = \<bar>a\<bar>;
          d = \<bar>b\<bar>;
          e = quotientExponent n d
      in if 52 \<le> e
         then (let v = roundHalfEven n (d * 2 ^ nat (e - 52)) * 2 ^ nat (e - 52)
               in if neg then - v else v)
         else (let m = roundHalfEven (n * 2 ^ nat (52 - e)) d
               in (if neg then - m else m) div 2 ^ nat (52 - e)))"

text \<open>\<open>Math.floor(x / y)\<close>; a division by zero gives an infinity or \<open>NaN\<close>.\<close>

definition floorDiv :: "jsnum \<Rightarrow> jsnum \<Rightarrow> jsnum" where
  "floorDiv x y =
     (if x = NaN \<or> y = NaN then NaN
      else if isInf x then (if isInf y then NaN else signedInf (negative x \<noteq> negative y))
      else if isInf y then signedZero (negative x \<noteq> negative y)
      else if isZero y then (if isZero x then NaN else signedInf (negative x \<noteq> negative y))
      else if isZero x then signedZero (negative x \<noteq> negative y)
      else Num (floorQuotient (valueOf x) (valueOf y)))"

text \<open>\<open>x > k\<close> for an integer \<open>k\<close>: false on \<open>NaN\<close>.\<close>

fun jsGt :: "jsnum \<Rightarrow> int \<Rightarrow> bool" where
  "jsGt (Num a) k = (k < a)"
| "jsGt NegZero k = (k < 0)"
| "jsGt PosInf k = True"
| "jsGt NegInf k = False"
| "jsGt NaN k = False"

text \<open>\<open>Math.max(0, x)\<close>.\<close>

fun jsMax0 :: "jsnum \<Rightarrow> jsnum" where
  "jsMax0 (Num a) = Num (max 0 a)"
| "jsMax0 NegZero = Num 0"
| "jsMax0 PosInf = PosInf"
| "jsMax0 NegInf = Num 0"
| "jsMax0 NaN = NaN"

text \<open>\<open>Math.ceil(a / b)\<close> for a positive divisor.\<close>

definition ceilDiv :: "int \<Rightarrow> int \<Rightarrow> int" where
  "ceilDiv a b = - ((- a) div b)"

section \<open>Reward math (RewardsService)\<close>

definition weeklyEmissionRate :: int where
  "weeklyEmissionRate = 21"

definition emissionPrecision :: int where
  "emissionPrecision = 10000"

definition maxApyBasisPoints :: int where
  "maxApyBasisPoints = 7500"

text \<open>\<open>applyApyCap(stakedAmount, rewardAmount, weeks)\<close>.\<close>

definition applyApyCap :: "jsnum \<Rightarrow> jsnum \<Rightarrow> jsnum \<Rightarrow> jsnum" where
  "applyApyCap stakedAmount rewardAmount weeks =
     (if isZero weeks then rewardAmount
      else
        let annualizedRate =
              floorDiv (jsMul (jsMul rewardAmount (Num 52)) (Num 10000))
                (jsMul stakedAmount weeks)
        in if jsGt annualizedRate maxApyBasisPoints
           then floorDiv (jsMul (jsMul stakedAmount (Num maxApyBasisPoints)) weeks)
                  (jsMul (Num 10000) (Num 52))
           else rewardAmount)"

text \<open>The three intermediate constants of \<open>calculateProRataReward\<close>.\<close>

definition weeklyPoolEmission :: "jsnum \<Rightarrow> jsnum" where
  "weeklyPoolEmission rewardPool =
     floorDiv (jsMul rewardPool (Num weeklyEmissionRate)) (Num emissionPrecision)"

definition userWeeklyShare :: "jsnum \<Rightarrow> jsnum \<Rightarrow> jsnum \<Rightarrow> jsnum" where
  "userWeeklyShare userStakingPower totalStakingPower rewardPool =
     floorDiv (jsMul (weeklyPoolEmission rewardPool) userStakingPower) totalStakingPower"

definition totalReward :: "jsnum \<Rightarrow> jsnum \<Rightarrow> jsnum \<Rightarrow> jsnum \<Rightarrow> jsnum" where
  "totalReward userStakingPower totalStakingPower rewardPool weeks =
     jsMul (userWeeklyShare userStakingPower totalStakingPower rewardPool) weeks"

definition calculateProRataReward :: "jsnum \<Rightarrow> jsnum \<Rightarrow> jsnum \<Rightarrow> jsnum \<Rightarrow> jsnum" where
  "calculateProRataReward userStakingPower totalStakingPower rewardPool weeks =
     (if isZero totalStakingPower \<or> isZero userStakingPower then Num 0
      else applyApyCap userStakingPower
             (totalReward userStakingPower totalStakingPower rewardPool weeks) weeks)"

section \<open>Database rows\<close>

text \<open>
  The Prisma models, one record per table row. A program-derived address is a hash of the
  owner's key and the 8 little-endian bytes of the seed's magnitude (\<open>toArrayLike\<close>
  writes no sign); it is modelled by the pair it is derived from, so two addresses are
  equal exactly when owner and magnitude are. The wallet string is taken to be a
  well-formed public key. Position and receipt identifiers are the UUIDs drawn by the caller.
\<close>

record StakePosition =
  posId :: string
  owner :: string
  pda :: "string \<times> int"
  amount :: int
  durationMonths :: int
  tierId :: int
  isLocked :: bool
  powerMultiplier :: int
  stakingPower :: int
  startTs :: int
  unlockTs :: int
  lastRewardTs :: int
  lastClaimTs :: "int option"
  cooldownEnd :: "int option"
  pendingPrincipal :: "int option"
  isActive :: bool
  positionSeed :: int

record StakingTier =
  tier_tierId :: int
  multiplier :: int
  minMonths :: int
  maxMonths :: int
  tier_isActive :: bool

record ProgramState =
  isPaused :: bool
  currentEpoch :: int
  currentEpochStartTs :: int
  currentWeeklyEmission :: "int option"
  totalStaked :: int
  totalRewardPool :: int
  totalStakingPower :: int

record PenaltyTransaction =
  positionId :: string
  wallet :: string
  penaltyAmount :: int
  toRewardPool :: int
  toProtocol :: int
  tierMultiplier :: int

record RewardNft =
  nft_id :: string
  nft_owner :: string
  nft_pda :: "string \<times> int"
  rewardAmount :: int
  vestTs :: int
  nft_isActive :: bool
  nftSeed :: int
  nft_positionId :: string

text \<open>The tables; \<open>programState\<close> is the single row \<open>findFirst\<close> returns, if any.\<close>

record database =
  stakePosition :: "StakePosition list"
  stakingTier :: "StakingTier list"
  programState :: "ProgramState option"
  penaltyTransaction :: "PenaltyTransaction list"
  rewardNft :: "RewardNft list"

text \<open>The two settings read through \<open>ConfigService\<close>; \<open>None\<close> is an unset key.\<close>

record config =
  cooldownPeriod :: "int option"
  vestingPeriod :: "int option"

text \<open>
  The exceptions the services throw, one constructor per message:
  \<open>InvalidTier\<close> "Staking tier not active or does not exist",
  \<open>InvalidDuration\<close> "Duration must be between min and max months",
  \<open>NotFound\<close> "Stake position not found",
  \<open>NotActive\<close> "Stake position is not active",
  \<open>CooldownAlreadyActive\<close> "Cooldown already active for this position",
  \<open>StillActive\<close> "Position is still active",
  \<open>NoCooldown\<close> "No cooldown active for this position",
  \<open>CooldownNotElapsed h\<close> "Cooldown period not complete. h hours remaining.",
  \<open>TooSoonToClaim h\<close> "Must wait 7 days between claims. h hours remaining.",
  \<open>ProgramStateNotInitialized\<close> "Program state not initialized",
  \<open>NothingAccrued\<close> "No rewards accrued yet",
  \<open>NoRewardAvailable\<close> "No rewards available",
  \<open>UniqueConstraintViolation\<close> the database's rejection of a second row with the same
  identifier or address,
  \<open>RangeError\<close> the failure of \<open>BigInt\<close> on a number that is not finite.
\<close>

datatype error =
    InvalidTier
  | InvalidDuration int int
  | NotFound
  | NotActive
  | CooldownAlreadyActive
  | StillActive
  | NoCooldown
  | CooldownNotElapsed int
  | TooSoonToClaim int
  | ProgramStateNotInitialized
  | NothingAccrued
  | NoRewardAvailable
  | UniqueConstraintViolation
  | RangeError

section \<open>Database access\<close>

definition findStakePositionPda :: "string \<Rightarrow> int \<Rightarrow> string \<times> int" where
  "findStakePositionPda ownerPubkey positionSeedBN = (ownerPubkey, \<bar>positionSeedBN\<bar>)"


text \<open>\<open>stakePosition.findUnique({ where: { pda } })\<close>.\<close>

definition findPositionByPda :: "string \<times> int \<Rightarrow> database \<Rightarrow> StakePosition option" where
  "findPositionByPda k db = find (\<lambda>p. pda p = k) (stakePosition db)"

text \<open>
  \<open>stakePosition.update({ where: { pda }, data })\<close>; the address column is unique, so at
  most one row matches.
\<close>

definition updatePositionByPda ::
  "string \<times> int \<Rightarrow> (StakePosition \<Rightarrow> StakePosition) \<Rightarrow> database \<Rightarrow> database" where
  "updatePositionByPda k f db =
     db\<lparr>stakePosition := map (\<lambda>p. if pda p = k then f p else p) (stakePosition db)\<rparr>"

text \<open>\<open>stakePosition.update({ where: { id }, data })\<close>.\<close>

definition updatePositionById ::
  "string \<Rightarrow> (StakePosition \<Rightarrow> StakePosition) \<Rightarrow> database \<Rightarrow> database" where
  "updatePositionById i f db =
     db\<lparr>stakePosition := map (\<lambda>p. if posId p = i then f p else p) (stakePosition db)\<rparr>"

text \<open>\<open>stakePosition.create\<close>: rejected when the identifier or the address is taken.\<close>

definition createPosition :: "StakePosition \<Rightarrow> database \<Rightarrow> error + database" where
  "createPosition row db =
     (case find (\<lambda>p. posId p = posId row \<or> pda p = pda row) (stakePosition db) of
        Some p \<Rightarrow> Inl UniqueConstraintViolation
      | None \<Rightarrow> Inr (db\<lparr>stakePosition := stakePosition db @ [row]\<rparr>))"


section \<open>StakingService\<close>

definition calculatePowerMultiplier :: "int \<Rightarrow> int" where
  "calculatePowerMultiplier months =
     (if 1 \<le> months \<and> months \<le> 5 then 100
      else if 6 \<le> months \<and> months \<le> 11 then 150
      else if 12 \<le> months \<and> months \<le> 17 then 200
      else if 18 \<le> months \<and> months \<le> 23 then 250
      else if 24 \<le> months \<and> months \<le> 35 then 300
      else if 36 \<le> months then 400
      else 100)"

definition tierPenalties :: "(int \<times> int) list" where
  "tierPenalties = [(1, 500), (2, 750), (3, 1000), (4, 1250)]"

text \<open>\<open>tierPenalties[tierId] || 500\<close>.\<close>

definition getTierPenaltyMultiplier :: "int \<Rightarrow> int" where
  "getTierPenaltyMultiplier tid =
     (case map_of tierPenalties tid of
        Some v \<Rightarrow> if v \<noteq> 0 then v else 500
      | None \<Rightarrow> 500)"

text \<open>
  The value \<open>stakeTokens\<close> returns; \<open>st_amount\<close> and \<open>st_stakingPower\<close> are the
  numbers \<open>amount\<close> and \<open>stakingPower\<close>, which are finite once the row is written.
\<close>

record StakeResult =
  st_positionId :: string
  st_pda :: "string \<times> int"
  st_positionSeed :: int
  st_amount :: int
  st_durationMonths :: int
  st_powerMultiplier :: int
  st_stakingPower :: int
  st_unlockTimestamp :: int

text \<open>
  \<open>Math.floor((amount * powerMultiplier) / 100)\<close>, for the number \<open>amount\<close> of the
  request: the double nearest to the integer \<open>amt\<close> that the request carries.
\<close>

definition stakingPowerOf :: "int \<Rightarrow> int \<Rightarrow> jsnum" where
  "stakingPowerOf amt powerMult = floorDiv (jsMul (toNumber amt) (Num powerMult)) (Num 100)"

text \<open>
  \<open>stakeTokens\<close>. \<open>nowMs\<close> is the reading of \<open>Date.now()\<close>, \<open>uuid\<close> the identifier
  drawn by \<open>uuidv4()\<close>; \<open>positionSeed || Date.now()\<close> replaces a missing or zero seed.
  The two conversions \<open>BigInt(amount)\<close> and \<open>BigInt(stakingPower)\<close> are evaluated
  before the row is written.
\<close>

definition stakeTokens ::
  "database \<Rightarrow> int \<Rightarrow> string \<Rightarrow> string \<Rightarrow> int \<Rightarrow> int \<Rightarrow> int \<Rightarrow> bool \<Rightarrow> int option
     \<Rightarrow> error + (database \<times> StakeResult)" where
  "stakeTokens db nowMs uuid walletKey amt months tid locked seedOpt =
     (let seed = (case seedOpt of Some s \<Rightarrow> if s \<noteq> 0 then s else nowMs | None \<Rightarrow> nowMs);
          stakePositionPda = findStakePositionPda walletKey seed
      in case find (\<lambda>t. tier_tierId t = tid) (stakingTier db) of
           None \<Rightarrow> Inl InvalidTier
         | Some tier \<Rightarrow>
             if \<not> tier_isActive tier then Inl InvalidTier
             else if months < minMonths tier \<or> months > maxMonths tier
             then Inl (InvalidDuration (minMonths tier) (maxMonths tier))
             else
               let powerMult = calculatePowerMultiplier months;
                   now = nowMs div 1000;
                   unlockTimestamp = now + months * 30 * 24 * 60 * 60
               in case toBigInt (toNumber amt) of
                    None \<Rightarrow> Inl RangeError
                  | Some stored \<Rightarrow>
                      (case toBigInt (stakingPowerOf amt powerMult) of
                         None \<Rightarrow> Inl RangeError
                       | Some storedPower \<Rightarrow>
                           let row = \<lparr> posId = uuid, owner = walletKey,
                                       pda = stakePositionPda, amount = stored,
                                       durationMonths = months, tierId = tid,
                                       isLocked = locked, powerMultiplier = powerMult,
                                       stakingPower = storedPower, startTs = now,
                                       unlockTs = unlockTimestamp, lastRewardTs = now,
                                       lastClaimTs = Some now, cooldownEnd = None,
                                       pendingPrincipal = None, isActive = True,
                                       positionSeed = seed \<rparr>
                           in case createPosition row db of
                                Inl e \<Rightarrow> Inl e
                              | Inr db' \<Rightarrow>
                                  Inr (db', \<lparr> st_positionId = uuid, st_pda = stakePositionPda,
                                              st_positionSeed = seed, st_amount = stored,
                                              st_durationMonths = months,
                                              st_powerMultiplier = powerMult,
                                              st_stakingPower = storedPower,
                                              st_unlockTimestamp = unlockTimestamp \<rparr>)))"

record UnstakeResult =
  un_positionId :: string
  un_pda :: "string \<times> int"
  un_cooldownEnd :: int
  isEarlyUnstake :: bool

text \<open>
  The early-unstake branch of \<open>unstakeTokens\<close>:
  \<open>Math.floor((Number(position.amount) * tierMultiplier) / 10000)\<close>, its two halves and
  \<open>Number(position.amount) - penaltyAmount\<close>.
\<close>

definition earlyPenaltyAmount :: "StakePosition \<Rightarrow> jsnum" where
  "earlyPenaltyAmount position =
     floorDiv (jsMul (toNumber (amount position))
                 (Num (getTierPenaltyMultiplier (tierId position))))
       (Num 10000)"

definition halfPenalty :: "StakePosition \<Rightarrow> jsnum" where
  "halfPenalty position = floorDiv (earlyPenaltyAmount position) (Num 2)"

definition principalAfterPenalty :: "bool \<Rightarrow> StakePosition \<Rightarrow> jsnum" where
  "principalAfterPenalty early position =
     (if early then jsSub (toNumber (amount position)) (earlyPenaltyAmount position)
      else toNumber (amount position))"

text \<open>
  The two writes of the early-unstake branch: the penalty record, whose three
  \<open>BigInt\<close> conversions precede the write, and the increment of the reward pool.
\<close>

definition applyEarlyPenalty :: "string \<Rightarrow> StakePosition \<Rightarrow> database \<Rightarrow> error + database" where
  "applyEarlyPenalty walletKey position db =
     (case toBigInt (earlyPenaltyAmount position) of
        None \<Rightarrow> Inl RangeError
      | Some penalty \<Rightarrow>
          (case toBigInt (halfPenalty position) of
             None \<Rightarrow> Inl RangeError
           | Some half \<Rightarrow>
               Inr (db\<lparr> penaltyTransaction := penaltyTransaction db @
                          [\<lparr> positionId = posId position, wallet = walletKey,
                             penaltyAmount = penalty, toRewardPool = half,
                             toProtocol = half,
                             tierMultiplier = getTierPenaltyMultiplier (tierId position) \<rparr>],
                        programState :=
                          map_option (\<lambda>s. s\<lparr>totalRewardPool := totalRewardPool s + half\<rparr>)
                            (programState db) \<rparr>)))"

text \<open>
  \<open>unstakeTokens\<close>; \<open>now\<close> is \<open>Math.floor(Date.now() / 1000)\<close>. An exception comes
  with the tables as they are when it is thrown: \<open>BigInt(principalAfterPenalty)\<close> is
  evaluated after the writes of the early-unstake branch.
\<close>

definition unstakeTokens ::
  "database \<Rightarrow> config \<Rightarrow> int \<Rightarrow> string \<Rightarrow> int
     \<Rightarrow> (error \<times> database) + (database \<times> UnstakeResult)" where
  "unstakeTokens db cfg now walletKey seed =
     (let stakePositionPda = findStakePositionPda walletKey seed
      in case findPositionByPda stakePositionPda db of
           None \<Rightarrow> Inl (NotFound, db)
         | Some position \<Rightarrow>
             if \<not> isActive position then Inl (NotActive, db)
             else if (case cooldownEnd position of Some c \<Rightarrow> 0 < c | None \<Rightarrow> False)
             then Inl (CooldownAlreadyActive, db)
             else
               let period = (case cooldownPeriod cfg of Some c \<Rightarrow> c | None \<Rightarrow> 604800);
                   cooldownEndTs = now + period;
                   early = now < unlockTs position
               in case (if early then applyEarlyPenalty walletKey position db else Inr db) of
                    Inl e \<Rightarrow> Inl (e, db)
                  | Inr db1 \<Rightarrow>
                      (case toBigInt (principalAfterPenalty early position) of
                         None \<Rightarrow> Inl (RangeError, db1)
                       | Some pending \<Rightarrow>
                           Inr (updatePositionByPda stakePositionPda
                                  (\<lambda>p. p\<lparr> cooldownEnd := Some cooldownEndTs,
                                           pendingPrincipal := Some pending,
                                           isActive := False \<rparr>) db1,
                                \<lparr> un_positionId = posId position, un_pda = pda position,
                                  un_cooldownEnd = cooldownEndTs, isEarlyUnstake = early \<rparr>)))"

record FinalizeResult =
  fin_positionId :: string
  fin_pda :: "string \<times> int"
  fin_amount :: int

text \<open>
  \<open>finalizeUnstake\<close>. The returned amount is the decimal rendering of the position's
  pending principal as read before the update (\<open>'0'\<close> when it is null).
\<close>

definition finalizeUnstake ::
  "database \<Rightarrow> int \<Rightarrow> string \<Rightarrow> int \<Rightarrow> error + (database \<times> FinalizeResult)" where
  "finalizeUnstake db now walletKey seed =
     (let stakePositionPda = findStakePositionPda walletKey seed
      in case findPositionByPda stakePositionPda db of
           None \<Rightarrow> Inl NotFound
         | Some position \<Rightarrow>
             if isActive position then Inl StillActive
             else
               (case cooldownEnd position of
                  None \<Rightarrow> Inl NoCooldown
                | Some c \<Rightarrow>
                    if c = 0 then Inl NoCooldown
                    else if now < c then Inl (CooldownNotElapsed (ceilDiv (c - now) 3600))
                    else
                      Inr (updatePositionByPda stakePositionPda
                             (\<lambda>p. p\<lparr> cooldownEnd := Some 0, pendingPrincipal := Some 0,
                                      amount := 0 \<rparr>) db,
                           \<lparr> fin_positionId = posId position, fin_pda = pda position,
                             fin_amount =
                               (case pendingPrincipal position of Some v \<Rightarrow> v
                                | None \<Rightarrow> 0) \<rparr>)))"

section \<open>RewardsService.claimRewards\<close>







section \<open>CooldownFinalizerProcessor\<close>

text \<open>The \<open>where\<close> clause of the sweep's \<open>findMany\<close>.\<close>

definition readyToFinalize :: "int \<Rightarrow> StakePosition \<Rightarrow> bool" where
  "readyToFinalize now p =
     (isActive p
      \<and> (case cooldownEnd p of Some c \<Rightarrow> c \<le> now | None \<Rightarrow> False)
      \<and> (case pendingPrincipal p of Some v \<Rightarrow> 0 < v | None \<Rightarrow> False))"

definition positionsToFinalize :: "int \<Rightarrow> database \<Rightarrow> StakePosition list" where
  "positionsToFinalize now db = filter (readyToFinalize now) (stakePosition db)"

text \<open>
  The entries of the job's \<open>results\<close>: a finalized row with the pending principal read at
  the start (\<open>'0'\<close> when it is null), or a failed row with the exception caught.
\<close>

record SweepEntry =
  sw_positionId :: string
  sw_pda :: "string \<times> int"
  sw_owner :: string
  sw_amount :: int

definition sweepEntry :: "StakePosition \<Rightarrow> SweepEntry" where
  "sweepEntry position =
     \<lparr> sw_positionId = posId position, sw_pda = pda position, sw_owner = owner position,
       sw_amount = (case pendingPrincipal position of Some v \<Rightarrow> v | None \<Rightarrow> 0) \<rparr>"

datatype SweepOutcome =
    RowFinalized SweepEntry
  | RowFailed string "string \<times> int" string error

text \<open>
  The new totals, \<open>BigInt(Math.max(0, Number(total) - Number(position's value)))\<close> for
  \<open>totalStaked\<close> and \<open>totalStakingPower\<close>; \<open>None\<close> when a conversion fails.
\<close>

definition sweptTotal :: "int \<Rightarrow> int \<Rightarrow> int option" where
  "sweptTotal whole part = toBigInt (jsMax0 (jsSub (toNumber whole) (toNumber part)))"

text \<open>
  One turn of the loop, for a row of the list read at the start: the row's update by
  identifier, then the read and update of the program state. An exception of the turn is
  caught inside the loop: the row is reported as failed and not counted, and the writes
  made before the exception stay.
\<close>

definition finalizePosition ::
  "StakePosition \<Rightarrow> database \<times> nat \<times> SweepOutcome list
     \<Rightarrow> database \<times> nat \<times> SweepOutcome list" where
  "finalizePosition position acc =
     (case acc of (db, finalizedCount, results) \<Rightarrow>
        let db1 = updatePositionById (posId position)
                    (\<lambda>p. p\<lparr> isActive := False, pendingPrincipal := Some 0,
                             cooldownEnd := None \<rparr>) db;
            failed = RowFailed (posId position) (pda position) (owner position) RangeError
        in case programState db1 of
             None \<Rightarrow>
               (db1, Suc finalizedCount, results @ [RowFinalized (sweepEntry position)])
           | Some s \<Rightarrow>
               (case sweptTotal (totalStaked s) (amount position) of
                  None \<Rightarrow> (db1, finalizedCount, results @ [failed])
                | Some newStaked \<Rightarrow>
                    (case sweptTotal (totalStakingPower s) (stakingPower position) of
                       None \<Rightarrow> (db1, finalizedCount, results @ [failed])
                     | Some newPower \<Rightarrow>
                         (db1\<lparr> programState :=
                                 Some (s\<lparr> totalStaked := newStaked,
                                          totalStakingPower := newPower \<rparr>) \<rparr>,
                          Suc finalizedCount,
                          results @ [RowFinalized (sweepEntry position)]))))"

text \<open>
  The job's return value: \<open>{ finalized: 0 }\<close> when nothing is ready, otherwise the count
  of finalized rows, the number of rows read, and one entry per row.
\<close>

datatype SweepResult = NothingReady | Swept nat nat "SweepOutcome list"

fun finalized :: "SweepResult \<Rightarrow> nat" where
  "finalized NothingReady = 0"
| "finalized (Swept n t rs) = n"

definition handleCooldownFinalization :: "database \<Rightarrow> int \<Rightarrow> database \<times> SweepResult" where
  "handleCooldownFinalization db now =
     (let ready = positionsToFinalize now db
      in if ready = [] then (db, NothingReady)
         else (case fold finalizePosition ready (db, 0, []) of
                 (db', finalizedCount, results) \<Rightarrow>
                   (db', Swept finalizedCount (length ready) results)))"

section \<open>RewardDistributionProcessor\<close>

text \<open>
  The job's return value: skipped, nothing to distribute, or the new epoch, the number of
  positions updated, the total distributed and the weekly emission.
\<close>

datatype DistributionResult =
    Skipped
  | NoActivePositions
  | Distributed int nat jsnum int

text \<open>\<open>Math.floor((weeklyPoolEmission * stakingPower) / totalStakingPower)\<close>.\<close>

definition userShare :: "jsnum \<Rightarrow> jsnum \<Rightarrow> StakePosition \<Rightarrow> jsnum" where
  "userShare emission totalPower position =
     floorDiv (jsMul emission (toNumber (stakingPower position))) totalPower"

text \<open>Whether the weekly job pays a position: its share of the emission is positive.\<close>

definition paid :: "jsnum \<Rightarrow> jsnum \<Rightarrow> StakePosition \<Rightarrow> bool" where
  "paid emission totalPower p = jsGt (userShare emission totalPower p) 0"

text \<open>
  One turn of the distribution loop: the position's share of the weekly emission, and, when
  it is positive, the update of \<open>lastRewardTs\<close> and of the two counters.
\<close>

definition distributeTo ::
  "int \<Rightarrow> jsnum \<Rightarrow> jsnum \<Rightarrow> StakePosition \<Rightarrow> database \<times> nat \<times> jsnum
     \<Rightarrow> database \<times> nat \<times> jsnum" where
  "distributeTo now emission totalPower position acc =
     (case acc of (db, distributedCount, totalDistributed) \<Rightarrow>
        if jsGt (userShare emission totalPower position) 0
        then (updatePositionById (posId position) (\<lambda>p. p\<lparr>lastRewardTs := now\<rparr>) db,
              Suc distributedCount,
              jsAdd totalDistributed (userShare emission totalPower position))
        else acc)"

text \<open>
  \<open>handleWeeklyDistribution\<close>; \<open>now\<close> is \<open>Math.floor(Date.now() / 1000)\<close>. An
  exception comes with the tables as they are when it is thrown:
  \<open>BigInt(weeklyPoolEmission)\<close> is evaluated after the loop.
\<close>

definition handleWeeklyDistribution ::
  "database \<Rightarrow> int \<Rightarrow> (error \<times> database) + (database \<times> DistributionResult)" where
  "handleWeeklyDistribution db now =
     (case programState db of
        None \<Rightarrow> Inl (ProgramStateNotInitialized, db)
      | Some state \<Rightarrow>
          if isPaused state then Inr (db, Skipped)
          else
            let activePositions = filter isActive (stakePosition db)
            in if activePositions = [] then Inr (db, NoActivePositions)
               else
                 let emission = weeklyPoolEmission (toNumber (totalRewardPool state));
                     looped = fold (distributeTo now emission
                                      (toNumber (totalStakingPower state)))
                                activePositions (db, 0, Num 0);
                     newEpoch = currentEpoch state + 1
                 in case looped of (db1, distributedCount, totalDistributed) \<Rightarrow>
                      (case toBigInt emission of
                         None \<Rightarrow> Inl (RangeError, db1)
                       | Some stored \<Rightarrow>
                           Inr (db1\<lparr> programState :=
                                       map_option
                                         (\<lambda>s. s\<lparr> currentEpoch := newEpoch,
                                                  currentEpochStartTs := now,
                                                  currentWeeklyEmission := Some stored \<rparr>)
                                         (programState db1) \<rparr>,
                                Distributed newEpoch distributedCount totalDistributed
                                  stored)))"

section \<open>Sequences of operations\<close>

text \<open>
  The three lifecycle requests and the hourly sweep, each with the clock reading and the
  arguments of its call. A request that throws leaves the tables as they are when the
  exception is thrown.
\<close>

datatype operation =
    Open int string string int int int bool "int option"
  | InitiateClose int string int
  | FinalizeClose int string int
  | Sweep int

fun step :: "config \<Rightarrow> operation \<Rightarrow> database \<Rightarrow> database" where
  "step cfg (Open nowMs uuid walletKey amt months tid locked seedOpt) db =
     (case stakeTokens db nowMs uuid walletKey amt months tid locked seedOpt of
        Inl e \<Rightarrow> db | Inr r \<Rightarrow> fst r)"
| "step cfg (InitiateClose now walletKey seed) db =
     (case unstakeTokens db cfg now walletKey seed of Inl e \<Rightarrow> snd e | Inr r \<Rightarrow> fst r)"
| "step cfg (FinalizeClose now walletKey seed) db =
     (case finalizeUnstake db now walletKey seed of Inl e \<Rightarrow> db | Inr r \<Rightarrow> fst r)"
| "step cfg (Sweep now) db = fst (handleCooldownFinalization db now)"

text \<open>The addresses of the positions whose withdrawal an operation finalizes.\<close>

fun finalizedBy :: "config \<Rightarrow> operation \<Rightarrow> database \<Rightarrow> (string \<times> int) list" where
  "finalizedBy cfg (FinalizeClose now walletKey seed) db =
     (case finalizeUnstake db now walletKey seed of
        Inl e \<Rightarrow> [] | Inr r \<Rightarrow> [fin_pda (snd r)])"
| "finalizedBy cfg (Sweep now) db = map pda (positionsToFinalize now db)"
| "finalizedBy cfg other db = []"

text \<open>
  Running a sequence from a state: the tables at the end, and the addresses finalized on
  the way.
\<close>

fun run ::
  "config \<Rightarrow> operation list \<Rightarrow> database \<times> (string \<times> int) list
     \<Rightarrow> database \<times> (string \<times> int) list" where
  "run cfg [] s = s"
| "run cfg (x # xs) s =
     run cfg xs (step cfg x (fst s), finalizedBy cfg x (fst s) @ snd s)"





text \<open>An \<open>unstakeTokens\<close> call whose cooldown ends at a second other than 0.\<close>

fun wellTimed :: "config \<Rightarrow> operation \<Rightarrow> bool" where
  "wellTimed cfg (InitiateClose now walletKey seed) =
     (now + (case cooldownPeriod cfg of Some c \<Rightarrow> c | None \<Rightarrow> 604800) \<noteq> 0)"
| "wellTimed cfg other = True"

text \<open>
  The three shapes of a row, given the addresses finalized so far: active without cooldown;
  cooling down; finalized, with \<open>cooldownEnd\<close> zero.
\<close>

definition shape :: "(string \<times> int) list \<Rightarrow> StakePosition \<Rightarrow> bool" where
  "shape fin p =
     (if isActive p
      then cooldownEnd p = None \<and> pendingPrincipal p = None \<and> pda p \<notin> set fin
      else pendingPrincipal p \<noteq> None
           \<and> (case cooldownEnd p of None \<Rightarrow> False
               | Some c \<Rightarrow> (c = 0) = (pda p \<in> set fin)))"

definition lifecycleInv :: "database \<Rightarrow> (string \<times> int) list \<Rightarrow> bool" where
  "lifecycleInv db fin =
     (distinct (map pda (stakePosition db))
      \<and> set fin \<subseteq> pda ` set (stakePosition db)
      \<and> (\<forall>p \<in> set (stakePosition db). shape fin p))"

section \<open>A concrete scenario\<close>

text \<open>
  The scenario of the end-to-end tests: one active tier admitting 1 to 60 months, a reward
  pool of 1_000_000_000_000 and zero totals; a stake of 1_000_000_000 for 6 months, seed 7,
  made at second 1_700_000_000 and closed early in the same second.
\<close>

definition scenarioTier :: StakingTier where
  "scenarioTier =
     \<lparr> tier_tierId = 1, multiplier = 150, minMonths = 1, maxMonths = 60,
       tier_isActive = True \<rparr>"

definition scenarioState :: ProgramState where
  "scenarioState =
     \<lparr> isPaused = False, currentEpoch = 1, currentEpochStartTs = 1700000000,
       currentWeeklyEmission = None, totalStaked = 0, totalRewardPool = 1000000000000,
       totalStakingPower = 0 \<rparr>"

definition scenarioDb :: database where
  "scenarioDb =
     \<lparr> stakePosition = [], stakingTier = [scenarioTier], programState = Some scenarioState,
       penaltyTransaction = [], rewardNft = [] \<rparr>"

definition defaultConfig :: config where
  "defaultConfig = \<lparr> cooldownPeriod = None, vestingPeriod = None \<rparr>"

definition coolingPosition :: StakePosition where
  "coolingPosition =
     \<lparr> posId = ''p1'', owner = ''alice'', pda = (''alice'', 7), amount = 1000000000,
       durationMonths = 6, tierId = 1, isLocked = True, powerMultiplier = 150,
       stakingPower = 1500000000, startTs = 1700000000, unlockTs = 1715552000,
       lastRewardTs = 1700000000, lastClaimTs = Some 1700000000,
       cooldownEnd = Some 1700604800, pendingPrincipal = Some 950000000,
       isActive = False, positionSeed = 7 \<rparr>"

definition openPosition :: StakePosition where
  "openPosition =
     coolingPosition \<lparr> cooldownEnd := None, pendingPrincipal := None, isActive := True \<rparr>"

definition openDb :: database where
  "openDb = scenarioDb \<lparr> stakePosition := [openPosition] \<rparr>"

definition scenarioPenalty :: PenaltyTransaction where
  "scenarioPenalty =
     \<lparr> positionId = ''p1'', wallet = ''alice'', penaltyAmount = 50000000,
       toRewardPool = 25000000, toProtocol = 25000000, tierMultiplier = 500 \<rparr>"

definition coolingDb :: database where
  "coolingDb =
     scenarioDb \<lparr> stakePosition := [coolingPosition],
                  programState := Some (scenarioState \<lparr> totalRewardPool := 1000025000000 \<rparr>),
                  penaltyTransaction := [scenarioPenalty] \<rparr>"

text \<open>
  The open position with a pool too small for any emission, and with a pool and a total
  staking power that pay it.
\<close>

definition poorDb :: database where
  "poorDb = openDb \<lparr> programState := Some (scenarioState \<lparr> totalRewardPool := 100 \<rparr>) \<rparr>"

definition fundedDb :: database where
  "fundedDb =
     openDb \<lparr> programState :=
                Some (scenarioState \<lparr> totalStakingPower := 1500000000 \<rparr>) \<rparr>"

definition closedPosition :: StakePosition where
  "closedPosition =
     coolingPosition \<lparr> cooldownEnd := Some 0, pendingPrincipal := Some 0, amount := 0 \<rparr>"

definition coolingOps :: "operation list" where
  "coolingOps =
     [Open 1700000000000 ''p1'' ''alice'' 1000000000 6 1 True (Some 7),
      InitiateClose 1700000000 ''alice'' 7,
      Sweep 1700604800]"

definition scenarioOps :: "operation list" where
  "scenarioOps =
     [Open 1700000000000 ''p1'' ''alice'' 1000000000 6 1 True (Some 7),
      InitiateClose 1700000000 ''alice'' 7,
      FinalizeClose 1700604800 ''alice'' 7]"

text \<open>
  Amounts whose products pass \<open>2^53\<close>: an open position of 115_325_444_319_688 in tier 4,
  one of 288_242_980_682_980 with the unknown tier id 9, and a reward pool of
  430_000_000_007_619.
\<close>

definition heavyPosition :: StakePosition where
  "heavyPosition = openPosition \<lparr> amount := 115325444319688, tierId := 4 \<rparr>"

definition heavyDb :: database where
  "heavyDb = openDb \<lparr> stakePosition := [heavyPosition] \<rparr>"

definition untieredPosition :: StakePosition where
  "untieredPosition = openPosition \<lparr> amount := 288242980682980, tierId := 9 \<rparr>"

definition untieredDb :: database where
  "untieredDb = openDb \<lparr> stakePosition := [untieredPosition], stakingTier := [] \<rparr>"

definition richDb :: database where
  "richDb =
     openDb \<lparr> programState :=
                Some (scenarioState \<lparr> totalRewardPool := 430000000007619,
                        totalStakingPower := 1500000000 \<rparr>) \<rparr>"




definition strayPosition :: StakePosition where
  "strayPosition =
     openPosition \<lparr> cooldownEnd := Some 1700604800, pendingPrincipal := Some 950000000 \<rparr>"

definition strayDb :: database where
  "strayDb = scenarioDb \<lparr> stakePosition := [strayPosition] \<rparr>"

definition sweptPosition :: StakePosition where
  "sweptPosition =
     strayPosition \<lparr> isActive := False, pendingPrincipal := Some 0, cooldownEnd := None \<rparr>"

section \<open>Facts about the numbers\<close>

text \<open>Below \<open>2^53\<close> the double arithmetic on non-negative integers is exact.\<close>

lemma roundHalfEven_one: "roundHalfEven n 1 = n"
  by (simp add: roundHalfEven_def)

lemma roundHalfEven_bounds:
  assumes "0 < d"
  shows "n div d \<le> roundHalfEven n d \<and> roundHalfEven n d \<le> n div d + 1
       \<and> (roundHalfEven n d = n div d + 1 \<longrightarrow> d \<le> 2 * (n mod d))"
  using assms by (auto simp add: roundHalfEven_def Let_def)

lemma roundToDouble_small:
  assumes "\<bar>x\<bar> < 9007199254740992"
  shows "roundToDouble x = x"
proof -
  have "bitlen \<bar>x\<bar> \<le> 53"
    using assms by (simp add: bitlen_le_iff_power)
  then have "nat (bitlen \<bar>x\<bar> - 53) = 0" by simp
  then show ?thesis
    by (simp add: roundToDouble_def Let_def roundHalfEven_one)
qed

lemma toNumber_small:
  assumes "\<bar>x\<bar> < 9007199254740992"
  shows "toNumber x = Num x"
proof -
  have "(9007199254740992 :: int) < 2 ^ 1024" by simp
  then show ?thesis
    using assms by (simp add: toNumber_def Let_def roundToDouble_small)
qed

lemma jsMul_small:
  assumes "0 \<le> a" and "0 \<le> b" and "a * b < 9007199254740992"
  shows "jsMul (Num a) (Num b) = Num (a * b)"
proof (cases "a * b = 0")
  case True
  then show ?thesis using assms by (simp add: jsMul_def signedZero_def)
next
  case False
  have "0 \<le> a * b" using assms by simp
  then have "\<bar>a * b\<bar> < 9007199254740992" using assms(3) by simp
  then show ?thesis using False by (simp add: jsMul_def toNumber_small)
qed

lemma quotientExponent_lower:
  assumes "0 < n" and "0 < d"
  shows "if 0 \<le> quotientExponent n d
         then d * 2 ^ nat (quotientExponent n d) \<le> n
         else d \<le> n * 2 ^ nat (- quotientExponent n d)"
proof -
  define bn where "bn = nat (bitlen n)"
  define bd where "bd = nat (bitlen d)"
  have bn: "bitlen n = int bn" and bd: "bitlen d = int bd"
    by (simp_all add: bn_def bd_def bitlen_nonneg)
  have pos: "0 < bitlen n"
    using assms(1) bitlen_eq_zero_iff [of n] bitlen_nonneg [of n] by linarith
  then have bn1: "1 \<le> bn" by (simp add: bn_def)
  have "nat (bitlen n - 1) = bn - 1" using pos by (simp add: bn_def nat_diff_distrib)
  then have n_lo: "2 ^ (bn - 1) \<le> n"
    using bitlen_bounds [OF assms(1)] by simp
  have d_hi: "d < 2 ^ bd"
    using bitlen_bounds [OF assms(2)] by (simp add: bd_def)
  let ?t = "bitlen n - bitlen d"
  let ?test = "if 0 \<le> ?t then d * 2 ^ nat ?t \<le> n else d \<le> n * 2 ^ nat (- ?t)"
  show ?thesis
  proof (cases ?test)
    case True
    then have eq: "quotientExponent n d = ?t" by (simp add: quotientExponent_def Let_def)
    show ?thesis unfolding eq by (rule True)
  next
    case False
    then have e: "quotientExponent n d = ?t - 1" by (simp add: quotientExponent_def Let_def)
    show ?thesis
    proof (cases "0 \<le> ?t - 1")
      case True
      then have le: "bd + 1 \<le> bn" using bn bd by simp
      then have k: "nat (?t - 1) = bn - bd - 1" using bn bd by simp
      have "d * 2 ^ (bn - bd - 1) \<le> 2 ^ bd * 2 ^ (bn - bd - 1)"
        using d_hi by (simp add: mult_right_mono)
      also have "\<dots> = (2::int) ^ (bn - 1)"
      proof -
        have "bn - 1 = bd + (bn - bd - 1)" using le by simp
        then show ?thesis by (metis power_add)
      qed
      also have "\<dots> \<le> n" by (rule n_lo)
      finally have "d * 2 ^ nat (?t - 1) \<le> n" using k by simp
      then show ?thesis unfolding e using True by simp
    next
      case False
      then have le: "bn \<le> bd" using bn bd by simp
      then have k: "nat (- (?t - 1)) = bd - bn + 1" using bn bd by simp
      have "d \<le> 2 ^ bd" using d_hi by simp
      also have "\<dots> = (2::int) ^ (bn - 1) * 2 ^ (bd - bn + 1)"
      proof -
        have "bd = (bn - 1) + (bd - bn + 1)" using le bn1 by simp
        then show ?thesis by (metis power_add)
      qed
      also have "\<dots> \<le> n * 2 ^ (bd - bn + 1)"
        using n_lo by (simp add: mult_right_mono)
      finally have "d \<le> n * 2 ^ nat (- (?t - 1))" using k by simp
      then show ?thesis unfolding e using False by simp
    qed
  qed
qed

lemma two_j_le_d_contra:
  fixes n d e :: int
  assumes n: "0 < n" "n < 9007199254740992" and d: "0 < d" and e: "e < 52"
      and lower: "if 0 \<le> e then d * 2 ^ nat e \<le> n else d \<le> n * 2 ^ nat (- e)"
      and big: "2 * 2 ^ nat (52 - e) \<le> d"
  shows False
proof (cases "0 \<le> e")
  case True
  then have "nat (52 - e) + nat e = 52" using e by simp
  then have "(2::int) ^ nat (52 - e) * 2 ^ nat e = 2 ^ 52" by (metis power_add)
  then have A: "(2::int) ^ nat (52 - e) * 2 ^ nat e = 4503599627370496" by simp
  have "2 * 2 ^ nat (52 - e) * 2 ^ nat e = 2 * ((2::int) ^ nat (52 - e) * 2 ^ nat e)"
    by (simp only: mult.assoc)
  then have "2 * 2 ^ nat (52 - e) * 2 ^ nat e = (9007199254740992::int)"
    unfolding A by simp
  moreover have "2 * 2 ^ nat (52 - e) * 2 ^ nat e \<le> d * (2::int) ^ nat e"
    using big by (simp add: mult_right_mono)
  moreover have "d * 2 ^ nat e \<le> n" using lower True by simp
  ultimately show False using n(2) by linarith
next
  case False
  then have "nat (52 - e) = 52 + nat (- e)" by simp
  then have "(2::int) ^ nat (52 - e) = 2 ^ 52 * 2 ^ nat (- e)" by (metis power_add)
  then have "9007199254740992 * (2::int) ^ nat (- e) = 2 * 2 ^ nat (52 - e)" by simp
  also have "\<dots> \<le> d" by (rule big)
  also have "\<dots> \<le> n * 2 ^ nat (- e)" using lower False by simp
  finally have "9007199254740992 * (2::int) ^ nat (- e) \<le> n * 2 ^ nat (- e)" .
  then have "9007199254740992 \<le> n" by simp
  then show False using n(2) by simp
qed

lemma floorQuotient_small:
  assumes n: "0 < n" "n < 9007199254740992" and d: "0 < d"
  shows "floorQuotient n d = n div d"
proof -
  define e where "e = quotientExponent n d"
  have lower: "if 0 \<le> e then d * 2 ^ nat e \<le> n else d \<le> n * 2 ^ nat (- e)"
    unfolding e_def by (rule quotientExponent_lower [OF n(1) d])
  show ?thesis
  proof (cases "52 \<le> e")
    case True
    then have le: "d * 2 ^ nat e \<le> n" using lower by simp
    have "1 * (2::int) ^ nat e \<le> d * 2 ^ nat e"
      using d by (intro mult_right_mono) simp_all
    then have "(2::int) ^ nat e \<le> d * 2 ^ nat e" by simp
    then have "(2::int) ^ nat e < 9007199254740992" using le n(2) by linarith
    then have "(2::int) ^ nat e < 2 ^ 53" by simp
    then have "nat e < 53" by (simp only: power_strict_increasing_iff)
    then have e52: "e = 52" using True by simp
    then have "d * 4503599627370496 \<le> n" using le by simp
    then have d1: "d = 1" using n(2) d by simp
    have qe: "quotientExponent n d = 52" using e52 by (simp add: e_def)
    have "floorQuotient n d = roundHalfEven n (d * 2 ^ nat (52 - 52)) * 2 ^ nat (52 - 52)"
      using n d by (simp add: floorQuotient_def Let_def qe)
    then show ?thesis by (simp add: d1 roundHalfEven_one)
  next
    case False
    then have e: "e < 52" by simp
    define j :: int where "j = 2 ^ nat (52 - e)"
    define q where "q = (n * j) div d"
    define r where "r = (n * j) mod d"
    define m where "m = roundHalfEven (n * j) d"
    define i where "i = n div d"
    have j2: "2 \<le> j"
    proof -
      have "1 \<le> nat (52 - e)" using e by simp
      then have "(2::int) ^ 1 \<le> 2 ^ nat (52 - e)" by (rule power_increasing) simp
      then show ?thesis by (simp add: j_def)
    qed
    have val: "floorQuotient n d = m div j"
      using n d False
      by (simp add: floorQuotient_def Let_def e_def [symmetric] j_def m_def)
    have rb: "q \<le> m" "m \<le> q + 1" "m = q + 1 \<longrightarrow> d \<le> 2 * r"
      using roundHalfEven_bounds [OF d, of "n * j"] by (simp_all add: q_def r_def m_def)
    have qj: "q div j = i"
    proof -
      have "q div j = (n * j) div (d * j)"
        unfolding q_def using j2 by (simp add: zdiv_zmult2_eq)
      also have "\<dots> = n div d" using j2 by simp
      finally show ?thesis by (simp add: i_def)
    qed
    have lo: "i \<le> m div j"
      using rb(1) j2 qj zdiv_mono1 [of q m j] by simp
    have hi: "m div j \<le> i"
    proof (cases "m = q")
      case True
      then show ?thesis using qj by simp
    next
      case False
      then have mq: "m = q + 1" using rb by simp
      then have dr: "d \<le> 2 * r" using rb(3) by simp
      have r_lt: "r < d" and r_ge: "0 \<le> r" using d by (simp_all add: r_def)
      have decomp: "n * j = q * d + r" by (simp add: q_def r_def)
      have n_lt: "n < (i + 1) * d"
      proof -
        have "n = i * d + n mod d" by (simp add: i_def)
        moreover have "n mod d < d" using d by simp
        ultimately show ?thesis by (simp add: algebra_simps)
      qed
      have gap: "1 \<le> (i + 1) * d - n" using n_lt by simp
      have "m < (i + 1) * j"
      proof (rule ccontr)
        assume "\<not> m < (i + 1) * j"
        then have ge: "(i + 1) * j \<le> q + 1" using mq by simp
        have "q * d \<le> n * j" using decomp r_ge by simp
        also have "n * j < ((i + 1) * d) * j"
          using n_lt j2 by (simp add: mult_strict_right_mono)
        finally have "q * d < ((i + 1) * j) * d" by (simp add: algebra_simps)
        then have "q < (i + 1) * j" using d by (simp add: mult_less_cancel_right)
        with ge have q_eq: "q = (i + 1) * j - 1" by simp
        have "j * ((i + 1) * d - n) = d - r"
          using decomp unfolding q_eq by (simp add: algebra_simps)
        moreover have "j * 1 \<le> j * ((i + 1) * d - n)"
          using gap j2 by (intro mult_left_mono) simp_all
        ultimately have "j \<le> d - r" by simp
        then have "2 * j \<le> d" using dr by simp
        then show False
          using two_j_le_d_contra [OF n d e lower] by (simp add: j_def)
      qed
      then have "m \<le> i * j + (j - 1)" by (simp add: algebra_simps)
      then have "m div j \<le> (i * j + (j - 1)) div j"
        using j2 by (intro zdiv_mono1) simp_all
      also have "\<dots> = i" using j2 by simp
      finally show ?thesis .
    qed
    from lo hi val show ?thesis by (simp add: i_def)
  qed
qed

lemma floorDiv_small:
  assumes "0 \<le> a" and "a < 9007199254740992" and "0 < b"
  shows "floorDiv (Num a) (Num b) = Num (a div b)"
proof (cases "a = 0")
  case True
  then show ?thesis using assms by (simp add: floorDiv_def signedZero_def)
next
  case False
  then have "0 < a" using assms(1) by simp
  from floorQuotient_small [OF this assms(2,3)] False assms(3)
  show ?thesis by (simp add: floorDiv_def)
qed

lemma jsSub_small:
  assumes "0 \<le> b" and "b \<le> a" and "a < 9007199254740992"
  shows "jsSub (Num a) (Num b) = Num (a - b)"
proof -
  have "\<bar>a - b\<bar> < 9007199254740992" and "\<bar>a\<bar> < 9007199254740992"
    using assms by simp_all
  then show ?thesis
    by (simp add: jsSub_def jsAdd_def toNumber_small)
qed

section \<open>Facts about the reward math\<close>

lemma div_gt_imp_mult_lt:
  fixes a b k :: int
  assumes "0 < b" and "k < a div b"
  shows "k * b < a"
proof -
  have "k + 1 \<le> a div b" using assms(2) by simp
  then have "(k + 1) * b \<le> (a div b) * b"
    using assms(1) by (simp add: mult_right_mono)
  also have "\<dots> \<le> a"
    using assms(1) by (metis mult.commute pos_mod_sign mult_div_mod_eq add_increasing2 order_refl)
  finally have "(k + 1) * b \<le> a" .
  moreover have "k * b < (k + 1) * b" using assms(1) by (simp add: distrib_right)
  ultimately show ?thesis by linarith
qed

lemma capped_le_reward:
  fixes s r w :: int
  assumes "0 < s * w" and "7500 < (r * 52 * 10000) div (s * w)"
  shows "(s * 7500 * w) div (10000 * 52) \<le> r"
proof -
  have "7500 * (s * w) < r * 52 * 10000"
    using div_gt_imp_mult_lt [OF assms] .
  then have "s * 7500 * w \<le> r * 520000" by (simp add: algebra_simps)
  then have "(s * 7500 * w) div 520000 \<le> (r * 520000) div 520000"
    by (rule zdiv_mono1) simp
  then show ?thesis by simp
qed

lemma annualized_exact:
  assumes "0 \<le> r" and "0 < s" and "0 < w"
      and "r * 520000 < 9007199254740992" and "s * 7500 * w < 9007199254740992"
  shows "floorDiv (jsMul (jsMul (Num r) (Num 52)) (Num 10000)) (jsMul (Num s) (Num w))
           = Num ((r * 52 * 10000) div (s * w))"
proof -
  have a: "jsMul (Num r) (Num 52) = Num (r * 52)"
    using assms(1,4) by (intro jsMul_small) simp_all
  have b: "jsMul (Num (r * 52)) (Num 10000) = Num (r * 52 * 10000)"
    using assms(1,4) by (intro jsMul_small) simp_all
  have sw: "0 < s * w" using assms(2,3) by simp
  have "(s * w) * 1 \<le> (s * w) * 7500" using sw by (intro mult_left_mono) simp_all
  then have small: "s * w < 9007199254740992" using assms(5) by (simp add: algebra_simps)
  have c: "jsMul (Num s) (Num w) = Num (s * w)"
    using assms(2,3) small by (intro jsMul_small) simp_all
  show ?thesis
    unfolding a b c using assms(1,4) sw by (intro floorDiv_small) simp_all
qed

lemma clamp_exact:
  assumes "0 \<le> s" and "0 < w" and "s * 7500 * w < 9007199254740992"
  shows "floorDiv (jsMul (jsMul (Num s) (Num 7500)) (Num w)) (jsMul (Num 10000) (Num 52))
           = Num ((s * 7500 * w) div (10000 * 52))"
proof -
  have "(s * 7500) * 1 \<le> (s * 7500) * w"
    using assms(1,2) by (intro mult_left_mono) simp_all
  then have small: "s * 7500 < 9007199254740992" using assms(3) by simp
  have a: "jsMul (Num s) (Num 7500) = Num (s * 7500)"
    using assms(1) small by (intro jsMul_small) simp_all
  have b: "jsMul (Num (s * 7500)) (Num w) = Num (s * 7500 * w)"
    using assms by (intro jsMul_small) simp_all
  have c: "jsMul (Num 10000) (Num 52) = Num 520000"
    using jsMul_small [of 10000 52] by simp
  have nonneg: "0 \<le> s * 7500 * w" using assms(1,2) by simp
  show ?thesis
    unfolding a b c using nonneg assms(3) floorDiv_small [of "s * 7500 * w" 520000] by simp
qed

lemma apy_cap_exact:
  assumes "0 \<le> stakedAmount" and "0 \<le> rawReward" and "0 \<le> weeks"
      and "rawReward * 52 * 10000 < 9007199254740992"
      and "stakedAmount * 7500 * weeks < 9007199254740992"
  shows "(weeks = 0 \<longrightarrow>
            applyApyCap (Num stakedAmount) (Num rawReward) (Num weeks) = Num rawReward)
       \<and> (weeks \<noteq> 0 \<and> stakedAmount \<noteq> 0 \<longrightarrow>
            applyApyCap (Num stakedAmount) (Num rawReward) (Num weeks) =
              Num (if 7500 < (rawReward * 52 * 10000) div (stakedAmount * weeks)
                   then (stakedAmount * 7500 * weeks) div (10000 * 52)
                   else rawReward))
       \<and> (weeks \<noteq> 0 \<and> stakedAmount = 0 \<longrightarrow>
            applyApyCap (Num stakedAmount) (Num rawReward) (Num weeks) = Num 0)
       \<and> (\<exists>v. applyApyCap (Num stakedAmount) (Num rawReward) (Num weeks) = Num v
              \<and> v \<le> rawReward)"
proof -
  let ?cap = "applyApyCap (Num stakedAmount) (Num rawReward) (Num weeks)"
  have bound: "rawReward * 520000 < 9007199254740992" using assms(4) by simp
  have zero: "weeks = 0 \<longrightarrow> ?cap = Num rawReward"
    by (simp add: applyApyCap_def)
  have pos: "?cap = Num (if 7500 < (rawReward * 52 * 10000) div (stakedAmount * weeks)
                         then (stakedAmount * 7500 * weeks) div (10000 * 52)
                         else rawReward)"
    if "weeks \<noteq> 0" "stakedAmount \<noteq> 0"
  proof -
    have s: "0 < stakedAmount" and w: "0 < weeks" using that assms(1,3) by simp_all
    show ?thesis
      unfolding applyApyCap_def Let_def maxApyBasisPoints_def
        annualized_exact [OF assms(2) s w bound assms(5)]
        clamp_exact [OF assms(1) w assms(5)]
      using that by simp
  qed
  have nostake: "?cap = Num 0" if "weeks \<noteq> 0" "stakedAmount = 0"
  proof -
    have w: "0 < weeks" using that assms(3) by simp
    have r52: "jsMul (Num rawReward) (Num 52) = Num (rawReward * 52)"
      using assms(2) bound by (intro jsMul_small) simp_all
    have r: "jsMul (Num (rawReward * 52)) (Num 10000) = Num (rawReward * 52 * 10000)"
      using assms(2) bound by (intro jsMul_small) simp_all
    have c: "jsMul (Num 10000) (Num 52) = Num 520000"
      using jsMul_small [of 10000 52] by simp
    have z: "jsMul (Num 0) (Num weeks) = Num 0" "jsMul (Num 0) (Num 7500) = Num 0"
      using w by (simp_all add: jsMul_def signedZero_def)
    show ?thesis
      unfolding applyApyCap_def Let_def maxApyBasisPoints_def that(2) r52 r z c
      using that(1) assms(2)
      by (simp add: floorDiv_def signedZero_def signedInf_def)
  qed
  have le: "\<exists>v. ?cap = Num v \<and> v \<le> rawReward"
  proof (cases "weeks = 0")
    case True
    then show ?thesis using zero by simp
  next
    case w: False
    show ?thesis
    proof (cases "stakedAmount = 0")
      case True
      then show ?thesis using nostake w assms(2) by simp
    next
      case False
      then have "0 < stakedAmount * weeks" using assms w by (simp add: zero_less_mult_iff)
      then show ?thesis
        using pos [OF w False] capped_le_reward [of stakedAmount weeks rawReward] by auto
    qed
  qed
  from zero pos nostake le show ?thesis by blast
qed

text \<open>
  Claim C7, as amended. \<open>applyApyCap\<close> returns the raw reward when \<open>weeks = 0\<close>.
  Otherwise, for non-negative integers with \<open>rawReward * 52 * 10000\<close> and
  \<open>stakedAmount * 7500 * weeks\<close> below \<open>2^53\<close>, where the double arithmetic is
  exact: for a positive stake it returns the clamp
  \<open>floor(staked * 7500 * weeks / (10000 * 52))\<close> exactly when
  \<open>floor(raw * 52 * 10000 / (staked * weeks))\<close> exceeds 7500 and the raw reward
  otherwise; for a zero stake the quotient is infinite or \<open>NaN\<close> and the result is 0;
  the result never exceeds the raw reward.
\<close>

theorem applyApyCap_spec:
  "applyApyCap (Num stakedAmount) (Num rawReward) (Num 0) = Num rawReward
   \<and> (0 \<le> stakedAmount \<and> 0 \<le> rawReward \<and> 0 < weeks
        \<and> rawReward * 52 * 10000 < 9007199254740992
        \<and> stakedAmount * 7500 * weeks < 9007199254740992 \<longrightarrow>
        (stakedAmount \<noteq> 0 \<longrightarrow>
           applyApyCap (Num stakedAmount) (Num rawReward) (Num weeks) =
             Num (if 7500 < (rawReward * 52 * 10000) div (stakedAmount * weeks)
                  then (stakedAmount * 7500 * weeks) div (10000 * 52)
                  else rawReward))
        \<and> (stakedAmount = 0 \<longrightarrow>
             applyApyCap (Num stakedAmount) (Num rawReward) (Num weeks) = Num 0)
        \<and> (\<exists>v. applyApyCap (Num stakedAmount) (Num rawReward) (Num weeks) = Num v
               \<and> v \<le> rawReward))"
proof (intro conjI impI)
  show "applyApyCap (Num stakedAmount) (Num rawReward) (Num 0) = Num rawReward"
    by (simp add: applyApyCap_def)
next
  assume h: "0 \<le> stakedAmount \<and> 0 \<le> rawReward \<and> 0 < weeks
        \<and> rawReward * 52 * 10000 < 9007199254740992
        \<and> stakedAmount * 7500 * weeks < 9007199254740992"
  then have "0 \<le> stakedAmount" "0 \<le> rawReward" "0 \<le> weeks"
    "rawReward * 52 * 10000 < 9007199254740992"
    "stakedAmount * 7500 * weeks < 9007199254740992" and w: "weeks \<noteq> 0"
    by simp_all
  note exact = apy_cap_exact [OF this(1-5)]
  {
    assume "stakedAmount \<noteq> 0"
    with exact w
    show "applyApyCap (Num stakedAmount) (Num rawReward) (Num weeks) =
             Num (if 7500 < (rawReward * 52 * 10000) div (stakedAmount * weeks)
                  then (stakedAmount * 7500 * weeks) div (10000 * 52)
                  else rawReward)"
      by blast
  }
  {
    assume "stakedAmount = 0"
    with exact w
    show "applyApyCap (Num stakedAmount) (Num rawReward) (Num weeks) = Num 0" by blast
  }
  from exact
  show "\<exists>v. applyApyCap (Num stakedAmount) (Num rawReward) (Num weeks) = Num v
               \<and> v \<le> rawReward"
    by blast
qed

theorem applyApyCap_spec_witness:
  "applyApyCap (Num 100000000) (Num 4200000000) (Num 2) = Num 2884615
   \<and> applyApyCap (Num 100000000) (Num 4200000000) (Num 0) = Num 4200000000
   \<and> applyApyCap (Num 100000000) (Num 20000) (Num 2) = Num 20000
   \<and> applyApyCap (Num 0) (Num 5) (Num 2) = Num 0"
  using applyApyCap_spec [of 100000000 4200000000 2]
        applyApyCap_spec [of 100000000 4200000000 0]
        applyApyCap_spec [of 100000000 20000 2]
        applyApyCap_spec [of 0 5 2]
  by simp

text \<open>
  Against claim C7 as stated. For a stake of 30_000_000_032_513, a raw reward of
  432_750_000_469 and 1 week, \<open>floor(raw * 52 * 10000 / (staked * weeks))\<close> is 7500,
  which does not exceed the maximum, and \<open>applyApyCap\<close> returns the clamp
  432_692_308_161: the product \<open>raw * 52 * 10000\<close> passes \<open>2^53\<close> and its rounding
  lifts the quotient to 7501. For a stake of 78_095_777_327_487 and a raw reward of
  1_126_531_587_949 the exact quotient is 7501 and the raw reward is returned.
\<close>

theorem apy_cap_counterexample:
  "applyApyCap (Num 30000000032513) (Num 432750000469) (Num 1) = Num 432692308161
   \<and> (432750000469 * 52 * 10000) div (30000000032513 * 1) = (7500 :: int)
   \<and> applyApyCap (Num 78095777327487) (Num 1126531587949) (Num 1) = Num 1126531587949
   \<and> (1126531587949 * 52 * 10000) div (78095777327487 * 1) = (7501 :: int)"
  by code_simp

lemma emission_exact:
  assumes "0 \<le> p" and "p * 21 < 9007199254740992"
  shows "weeklyPoolEmission (Num p) = Num ((p * 21) div 10000)"
proof -
  have a: "jsMul (Num p) (Num 21) = Num (p * 21)"
    using assms by (intro jsMul_small) simp_all
  show ?thesis
    unfolding weeklyPoolEmission_def weeklyEmissionRate_def emissionPrecision_def a
    using assms by (intro floorDiv_small) simp_all
qed

lemma share_exact:
  assumes "0 \<le> e" and "0 \<le> u" and "0 < t" and "e * u < 9007199254740992"
  shows "floorDiv (jsMul (Num e) (Num u)) (Num t) = Num ((e * u) div t)"
proof -
  have a: "jsMul (Num e) (Num u) = Num (e * u)"
    using assms by (intro jsMul_small) simp_all
  show ?thesis
    unfolding a using assms by (intro floorDiv_small) simp_all
qed

lemma division_by_zero: "toBigInt (floorDiv x (Num 0)) = None"
  by (cases x) (simp_all add: floorDiv_def signedInf_def)

lemma reward_scenario:
  "weeklyPoolEmission (Num 1000000000000) = Num 2100000000
   \<and> userWeeklyShare (Num 100000000) (Num 100000000) (Num 1000000000000) = Num 2100000000
   \<and> totalReward (Num 100000000) (Num 100000000) (Num 1000000000000) (Num 2)
       = Num 4200000000"
  by code_simp

lemma pro_rata_exact:
  assumes "0 \<le> poolBalance" and "0 \<le> userPower" and "0 < totalPower" and "0 \<le> weeks"
      and "poolBalance * 21 < 9007199254740992"
      and "(poolBalance * 21) div 10000 * userPower < 9007199254740992"
      and "((poolBalance * 21) div 10000 * userPower) div totalPower * weeks
             < 9007199254740992"
  shows "weeklyPoolEmission (Num poolBalance) = Num ((poolBalance * 21) div 10000)"
    and "userWeeklyShare (Num userPower) (Num totalPower) (Num poolBalance) =
           Num (((poolBalance * 21) div 10000 * userPower) div totalPower)"
    and "totalReward (Num userPower) (Num totalPower) (Num poolBalance) (Num weeks) =
           Num (((poolBalance * 21) div 10000 * userPower) div totalPower * weeks)"
    and "userPower \<noteq> 0 \<Longrightarrow>
           calculateProRataReward (Num userPower) (Num totalPower) (Num poolBalance)
             (Num weeks) =
           applyApyCap (Num userPower)
             (Num (((poolBalance * 21) div 10000 * userPower) div totalPower * weeks))
             (Num weeks)"
proof -
  let ?e = "(poolBalance * 21) div 10000"
  let ?s = "(?e * userPower) div totalPower"
  show emission: "weeklyPoolEmission (Num poolBalance) = Num ?e"
    using assms(1,5) by (rule emission_exact)
  have e0: "0 \<le> ?e" using assms(1) by (simp add: pos_imp_zdiv_nonneg_iff)
  show share: "userWeeklyShare (Num userPower) (Num totalPower) (Num poolBalance) = Num ?s"
    unfolding userWeeklyShare_def emission
    by (rule share_exact [OF e0 assms(2,3,6)])
  have s0: "0 \<le> ?s"
    using assms(2,3) e0 by (simp add: pos_imp_zdiv_nonneg_iff)
  show raw: "totalReward (Num userPower) (Num totalPower) (Num poolBalance) (Num weeks)
               = Num (?s * weeks)"
    unfolding totalReward_def share
    using s0 assms(4,7) by (intro jsMul_small) simp_all
  show "calculateProRataReward (Num userPower) (Num totalPower) (Num poolBalance)
              (Num weeks) = applyApyCap (Num userPower) (Num (?s * weeks)) (Num weeks)"
    if "userPower \<noteq> 0"
    using that assms(3) by (simp add: calculateProRataReward_def raw)
qed

text \<open>
  Claim C6, as amended. \<open>calculateProRataReward\<close> returns 0 when the total or the user's
  staking power is 0; without the guard a zero total would give a share that is infinite
  or \<open>NaN\<close>. Otherwise, for non-negative integers with \<open>pool * 21\<close>,
  \<open>emission * userPower\<close> and \<open>share * weeks\<close> below \<open>2^53\<close>, where the double
  arithmetic is exact, the weekly emission is \<open>floor(pool * 21 / 10000)\<close>, the user's
  weekly share is \<open>floor(emission * userPower / totalPower)\<close>, the raw reward is
  \<open>share * weeks\<close>, and the function returns that raw reward passed through the APY
  cap. With a pool of 1_000_000_000_000, total and user power 100_000_000 and 2 weeks:
  emission 2_100_000_000, share 2_100_000_000, raw reward 4_200_000_000.
\<close>

theorem calculateProRataReward_spec:
  "calculateProRataReward (Num userPower) (Num 0) (Num poolBalance) (Num weeks) = Num 0
   \<and> calculateProRataReward (Num 0) (Num totalPower) (Num poolBalance) (Num weeks) = Num 0
   \<and> toBigInt (userWeeklyShare (Num userPower) (Num 0) (Num poolBalance)) = None
   \<and> (0 \<le> poolBalance \<and> 0 \<le> userPower \<and> 0 < totalPower \<and> 0 \<le> weeks
        \<and> poolBalance * 21 < 9007199254740992
        \<and> (poolBalance * 21) div 10000 * userPower < 9007199254740992
        \<and> ((poolBalance * 21) div 10000 * userPower) div totalPower * weeks
              < 9007199254740992 \<longrightarrow>
        weeklyPoolEmission (Num poolBalance) = Num ((poolBalance * 21) div 10000)
        \<and> userWeeklyShare (Num userPower) (Num totalPower) (Num poolBalance) =
              Num (((poolBalance * 21) div 10000 * userPower) div totalPower)
        \<and> totalReward (Num userPower) (Num totalPower) (Num poolBalance) (Num weeks) =
              Num (((poolBalance * 21) div 10000 * userPower) div totalPower * weeks)
        \<and> (userPower \<noteq> 0 \<longrightarrow>
              calculateProRataReward (Num userPower) (Num totalPower) (Num poolBalance)
                (Num weeks) =
              applyApyCap (Num userPower)
                (Num (((poolBalance * 21) div 10000 * userPower) div totalPower * weeks))
                (Num weeks)))
   \<and> weeklyPoolEmission (Num 1000000000000) = Num 2100000000
   \<and> userWeeklyShare (Num 100000000) (Num 100000000) (Num 1000000000000)
       = Num 2100000000
   \<and> totalReward (Num 100000000) (Num 100000000) (Num 1000000000000) (Num 2)
       = Num 4200000000"
proof -
  have guard: "calculateProRataReward (Num userPower) (Num 0) (Num poolBalance) (Num weeks)
                 = Num 0"
    "calculateProRataReward (Num 0) (Num totalPower) (Num poolBalance) (Num weeks) = Num 0"
    by (simp_all add: calculateProRataReward_def)
  have nototal: "toBigInt (userWeeklyShare (Num userPower) (Num 0) (Num poolBalance)) = None"
    by (simp add: userWeeklyShare_def division_by_zero)
  have exact: "weeklyPoolEmission (Num poolBalance) = Num ((poolBalance * 21) div 10000)
        \<and> userWeeklyShare (Num userPower) (Num totalPower) (Num poolBalance) =
              Num (((poolBalance * 21) div 10000 * userPower) div totalPower)
        \<and> totalReward (Num userPower) (Num totalPower) (Num poolBalance) (Num weeks) =
              Num (((poolBalance * 21) div 10000 * userPower) div totalPower * weeks)
        \<and> (userPower \<noteq> 0 \<longrightarrow>
              calculateProRataReward (Num userPower) (Num totalPower) (Num poolBalance)
                (Num weeks) =
              applyApyCap (Num userPower)
                (Num (((poolBalance * 21) div 10000 * userPower) div totalPower * weeks))
                (Num weeks))"
    if "0 \<le> poolBalance \<and> 0 \<le> userPower \<and> 0 < totalPower \<and> 0 \<le> weeks
        \<and> poolBalance * 21 < 9007199254740992
        \<and> (poolBalance * 21) div 10000 * userPower < 9007199254740992
        \<and> ((poolBalance * 21) div 10000 * userPower) div totalPower * weeks
              < 9007199254740992"
  proof -
    from that have "0 \<le> poolBalance" "0 \<le> userPower" "0 < totalPower" "0 \<le> weeks"
      "poolBalance * 21 < 9007199254740992"
      "(poolBalance * 21) div 10000 * userPower < 9007199254740992"
      "((poolBalance * 21) div 10000 * userPower) div totalPower * weeks
         < 9007199254740992"
      by simp_all
    from pro_rata_exact [OF this] show ?thesis by blast
  qed
  from guard nototal exact reward_scenario show ?thesis by blast
qed

theorem calculateProRataReward_spec_witness:
  "calculateProRataReward (Num 1000000) (Num 0) (Num 1000000000000) (Num 2) = Num 0
   \<and> calculateProRataReward (Num 0) (Num 1000000) (Num 1000000000000) (Num 2) = Num 0
   \<and> weeklyPoolEmission (Num 1000000000000) = Num 2100000000
   \<and> userWeeklyShare (Num 1000000) (Num 1000000) (Num 1000000000000) = Num 2100000000
   \<and> totalReward (Num 1000000) (Num 1000000) (Num 1000000000000) (Num 2) = Num 4200000000
   \<and> calculateProRataReward (Num 1000000) (Num 1000000) (Num 1000000000000) (Num 2) =
       applyApyCap (Num 1000000) (Num 4200000000) (Num 2)
   \<and> toBigInt (userWeeklyShare (Num 1000000) (Num 0) (Num 1000000000000)) = None"
  using calculateProRataReward_spec [of 1000000 1000000000000 2 1000000]
  by simp

text \<open>
  Against claim C6 as stated. With a pool of 1_000_000_000_000, a user power of
  1_007_823_970, a total power of 211_642_631_579 and 1 week, the formula
  \<open>floor(floor(pool * 21 / 10000) * userPower / totalPower)\<close> gives 10_000_018, and
  \<open>calculateProRataReward\<close> computes the share 10_000_019 and returns it: the product
  \<open>emission * userPower\<close> passes \<open>2^53\<close> and is rounded before the division.
\<close>

theorem pro_rata_counterexample:
  "userWeeklyShare (Num 1007823970) (Num 211642631579) (Num 1000000000000) = Num 10000019
   \<and> calculateProRataReward (Num 1007823970) (Num 211642631579) (Num 1000000000000)
        (Num 1) = Num 10000019
   \<and> ((1000000000000 * 21) div 10000 * 1007823970) div 211642631579 = (10000018 :: int)"
  by code_simp

section \<open>Facts about the tables\<close>

lemma find_map_update:
  assumes "\<And>q. P (f q) = P q"
  shows "find P (map (\<lambda>q. if P q then f q else q) xs) = map_option f (find P xs)"
  using assms by (induction xs) auto

lemma findPositionByPda_update:
  assumes "\<And>q. pda (f q) = pda q"
  shows "findPositionByPda k (updatePositionByPda k f db)
           = map_option f (findPositionByPda k db)"
  using find_map_update [of "\<lambda>p. pda p = k" f "stakePosition db"] assms
  by (simp add: findPositionByPda_def updatePositionByPda_def)

lemma ceilDiv_bounds:
  fixes a :: int
  shows "a \<le> 3600 * ceilDiv a 3600 \<and> 3600 * (ceilDiv a 3600 - 1) < a"
proof -
  define q where "q = (- a) div 3600"
  define r where "r = (- a) mod 3600"
  have "- a = 3600 * q + r" unfolding q_def r_def by simp
  moreover have "0 \<le> r" and "r < 3600" unfolding r_def by simp_all
  moreover have "ceilDiv a 3600 = - q" unfolding ceilDiv_def q_def by simp
  ultimately show ?thesis by simp
qed

section \<open>The early-unstake branch\<close>

lemma rate_bounds:
  "500 \<le> getTierPenaltyMultiplier t \<and> getTierPenaltyMultiplier t \<le> 1250"
  by (simp add: getTierPenaltyMultiplier_def tierPenalties_def)

lemma penalty_exact:
  assumes "0 \<le> amount position"
      and "amount position * getTierPenaltyMultiplier (tierId position) < 9007199254740992"
  shows "earlyPenaltyAmount position =
           Num ((amount position * getTierPenaltyMultiplier (tierId position)) div 10000)"
    and "halfPenalty position =
           Num ((amount position * getTierPenaltyMultiplier (tierId position)) div 10000 div 2)"
    and "principalAfterPenalty True position =
           Num (amount position
                - (amount position * getTierPenaltyMultiplier (tierId position)) div 10000)"
proof -
  let ?a = "amount position"
  let ?r = "getTierPenaltyMultiplier (tierId position)"
  let ?p = "(?a * ?r) div 10000"
  have r: "500 \<le> ?r" "?r \<le> 1250" using rate_bounds [of "tierId position"] by simp_all
  have "?a * 1 \<le> ?a * ?r" using assms(1) r(1) by (intro mult_left_mono) simp_all
  then have small: "?a < 9007199254740992" using assms(2) by simp
  then have a: "toNumber ?a = Num ?a" using assms(1) by (intro toNumber_small) simp
  have m: "jsMul (Num ?a) (Num ?r) = Num (?a * ?r)"
    using assms r(1) by (intro jsMul_small) simp_all
  have nonneg: "0 \<le> ?a * ?r" using assms(1) r(1) by simp
  show pen: "earlyPenaltyAmount position = Num ?p"
    unfolding earlyPenaltyAmount_def a m
    using nonneg assms(2) by (intro floorDiv_small) simp_all
  have p0: "0 \<le> ?p" using nonneg by (simp add: pos_imp_zdiv_nonneg_iff)
  have "?a * ?r \<le> ?a * 10000" using assms(1) r(2) by (intro mult_left_mono) simp_all
  then have "?p \<le> (?a * 10000) div 10000" by (intro zdiv_mono1) simp_all
  then have pa: "?p \<le> ?a" by simp
  show "halfPenalty position = Num (?p div 2)"
    unfolding halfPenalty_def pen
    using p0 pa small by (intro floorDiv_small) simp_all
  show "principalAfterPenalty True position = Num (?a - ?p)"
    unfolding principalAfterPenalty_def pen a
    using p0 pa small by (simp add: jsSub_small)
qed

lemma penalty_kept_position:
  assumes "applyEarlyPenalty walletKey position db = Inr db1"
  shows "findPositionByPda k db1 = findPositionByPda k db"
  using assms
  by (auto simp add: findPositionByPda_def applyEarlyPenalty_def split: option.splits)

text \<open>
  An early \<open>unstakeTokens\<close> on an active position without cooldown, given the three
  numbers it computes.
\<close>

lemma early_unstake_run:
  assumes found: "findPositionByPda (findStakePositionPda walletKey seed) db = Some position"
      and active: "isActive position"
      and idle: "case cooldownEnd position of Some c \<Rightarrow> c \<le> 0 | None \<Rightarrow> True"
      and early: "now < unlockTs position"
      and penalty: "earlyPenaltyAmount position = Num pen"
      and half: "halfPenalty position = Num hlf"
      and rest: "principalAfterPenalty True position = Num pending"
  shows "unstakeTokens db cfg now walletKey seed =
           Inr (updatePositionByPda (findStakePositionPda walletKey seed)
                  (\<lambda>p. p\<lparr> cooldownEnd :=
                             Some (now + (case cooldownPeriod cfg of Some c \<Rightarrow> c
                                          | None \<Rightarrow> 604800)),
                           pendingPrincipal := Some pending, isActive := False \<rparr>)
                  (db\<lparr> penaltyTransaction := penaltyTransaction db @
                         [\<lparr> positionId = posId position, wallet = walletKey,
                            penaltyAmount = pen, toRewardPool = hlf, toProtocol = hlf,
                            tierMultiplier = getTierPenaltyMultiplier (tierId position) \<rparr>],
                       programState :=
                         map_option (\<lambda>s. s\<lparr>totalRewardPool := totalRewardPool s + hlf\<rparr>)
                           (programState db) \<rparr>),
                \<lparr> un_positionId = posId position, un_pda = pda position,
                  un_cooldownEnd = now + (case cooldownPeriod cfg of Some c \<Rightarrow> c
                                          | None \<Rightarrow> 604800),
                  isEarlyUnstake = True \<rparr>)"
proof -
  have nocool: "\<not> (case cooldownEnd position of Some c \<Rightarrow> 0 < c | None \<Rightarrow> False)"
    using idle by (simp split: option.splits)
  show ?thesis
    using found active nocool early
    by (simp add: unstakeTokens_def applyEarlyPenalty_def penalty half rest Let_def)
qed

section \<open>The scenario, evaluated\<close>

lemmas scenario_defs =
  scenarioDb_def scenarioTier_def scenarioState_def defaultConfig_def openDb_def
  openPosition_def coolingPosition_def coolingDb_def scenarioPenalty_def

lemma scenario_numbers:
  "toNumber 1000000000 = Num 1000000000"
  "stakingPowerOf 1000000000 150 = Num 1500000000"
  by code_simp+

lemma scenario_penalty:
  "earlyPenaltyAmount openPosition = Num 50000000"
  "halfPenalty openPosition = Num 25000000"
  "principalAfterPenalty True openPosition = Num 950000000"
proof -
  have a: "0 \<le> amount openPosition"
    and b: "amount openPosition * getTierPenaltyMultiplier (tierId openPosition)
              < 9007199254740992"
    by (simp_all add: scenario_defs getTierPenaltyMultiplier_def tierPenalties_def)
  have v: "amount openPosition = 1000000000"
    "getTierPenaltyMultiplier (tierId openPosition) = 500"
    by (simp_all add: scenario_defs getTierPenaltyMultiplier_def tierPenalties_def)
  from penalty_exact [OF a b]
  show "earlyPenaltyAmount openPosition = Num 50000000"
    and "halfPenalty openPosition = Num 25000000"
    and "principalAfterPenalty True openPosition = Num 950000000"
    by (simp_all add: v)
qed

lemma stake_scenario:
  "stakeTokens scenarioDb 1700000000000 ''p1'' ''alice'' 1000000000 6 1 True (Some 7)
     = Inr (openDb,
            \<lparr> st_positionId = ''p1'', st_pda = (''alice'', 7), st_positionSeed = 7,
              st_amount = 1000000000, st_durationMonths = 6, st_powerMultiplier = 150,
              st_stakingPower = 1500000000, st_unlockTimestamp = 1715552000 \<rparr>)"
  by (simp add: scenario_defs stakeTokens_def createPosition_def findStakePositionPda_def
      calculatePowerMultiplier_def scenario_numbers Let_def)

lemma open_found:
  "findPositionByPda (findStakePositionPda ''alice'' 7) openDb = Some openPosition"
  by (simp add: scenario_defs findPositionByPda_def findStakePositionPda_def)

lemma unstake_scenario:
  "unstakeTokens openDb defaultConfig 1700000000 ''alice'' 7
     = Inr (coolingDb,
            \<lparr> un_positionId = ''p1'', un_pda = (''alice'', 7), un_cooldownEnd = 1700604800,
              isEarlyUnstake = True \<rparr>)"
proof -
  have active: "isActive openPosition"
    and idle: "case cooldownEnd openPosition of Some c \<Rightarrow> c \<le> 0 | None \<Rightarrow> True"
    and early: "1700000000 < unlockTs openPosition"
    by (simp_all add: scenario_defs)
  from early_unstake_run [OF open_found active idle early scenario_penalty,
      of defaultConfig]
  show ?thesis
    by (simp add: scenario_defs updatePositionByPda_def findStakePositionPda_def
        getTierPenaltyMultiplier_def tierPenalties_def)
qed

lemma cooling_found:
  "findPositionByPda (findStakePositionPda ''alice'' 7) coolingDb = Some coolingPosition"
  by (simp add: scenario_defs findPositionByPda_def findStakePositionPda_def)

lemma ready_scenario: "positionsToFinalize 1700604800 coolingDb = []"
  by (simp add: scenario_defs positionsToFinalize_def readyToFinalize_def)

lemma sweep_scenario:
  "handleCooldownFinalization coolingDb 1700604800 = (coolingDb, NothingReady)"
  by (simp add: scenario_defs handleCooldownFinalization_def positionsToFinalize_def
      readyToFinalize_def)

lemma finalize_scenario:
  "finalizeUnstake coolingDb 1700604800 ''alice'' 7
     = Inr (coolingDb \<lparr> stakePosition := [closedPosition] \<rparr>,
            \<lparr> fin_positionId = ''p1'', fin_pda = (''alice'', 7), fin_amount = 950000000 \<rparr>)"
  by (simp add: scenario_defs closedPosition_def finalizeUnstake_def findPositionByPda_def
      findStakePositionPda_def updatePositionByPda_def Let_def)

lemma run_cooling: "run defaultConfig coolingOps (scenarioDb, []) = (coolingDb, [])"
  by (simp add: coolingOps_def stake_scenario unstake_scenario sweep_scenario
      ready_scenario)

lemma run_closed:
  "run defaultConfig (coolingOps @ [FinalizeClose 1700604800 ''alice'' 7]) (scenarioDb, [])
     = (coolingDb \<lparr> stakePosition := [closedPosition] \<rparr>, [(''alice'', 7)])"
  by (simp add: coolingOps_def stake_scenario unstake_scenario sweep_scenario
      finalize_scenario ready_scenario)

section \<open>Closing a position\<close>

text \<open>
  Claim C4. For a position that is inactive with a cooldown set: before \<open>cooldownEnd\<close>
  \<open>finalizeUnstake\<close> fails with \<open>CooldownNotElapsed\<close>, reporting the remaining time in
  hours rounded up, and nothing is written; at or after \<open>cooldownEnd\<close> it succeeds and
  returns the pending principal read before the update, and a further call, at any time,
  fails with \<open>NoCooldown\<close>.
\<close>

theorem finalizeUnstake_time_gate:
  assumes found: "findPositionByPda (findStakePositionPda walletKey seed) db = Some position"
      and inactive: "\<not> isActive position"
      and cooldown: "cooldownEnd position = Some c" "c \<noteq> 0"
  shows "(now < c \<longrightarrow>
            finalizeUnstake db now walletKey seed
              = Inl (CooldownNotElapsed (ceilDiv (c - now) 3600))
            \<and> c - now \<le> 3600 * ceilDiv (c - now) 3600
            \<and> 3600 * (ceilDiv (c - now) 3600 - 1) < c - now
            \<and> step cfg (FinalizeClose now walletKey seed) db = db)
       \<and> (c \<le> now \<longrightarrow>
            (\<exists>db' r. finalizeUnstake db now walletKey seed = Inr (db', r)
               \<and> fin_amount r = (case pendingPrincipal position of Some v \<Rightarrow> v | None \<Rightarrow> 0)
               \<and> (\<forall>later. finalizeUnstake db' later walletKey seed = Inl NoCooldown)))"
proof (intro conjI impI)
  assume early: "now < c"
  then show "finalizeUnstake db now walletKey seed
              = Inl (CooldownNotElapsed (ceilDiv (c - now) 3600))"
    using found inactive cooldown by (simp add: finalizeUnstake_def)
  then show "step cfg (FinalizeClose now walletKey seed) db = db" by simp
  from ceilDiv_bounds [of "c - now"]
  show "c - now \<le> 3600 * ceilDiv (c - now) 3600"
    and "3600 * (ceilDiv (c - now) 3600 - 1) < c - now" by simp_all
next
  assume late: "c \<le> now"
  let ?k = "findStakePositionPda walletKey seed"
  let ?f = "\<lambda>p. p\<lparr> cooldownEnd := Some 0, pendingPrincipal := Some 0, amount := 0 \<rparr>"
  let ?db = "updatePositionByPda ?k ?f db"
  let ?r = "\<lparr> fin_positionId = posId position, fin_pda = pda position,
             fin_amount = (case pendingPrincipal position of Some v \<Rightarrow> v | None \<Rightarrow> 0) \<rparr>"
  have first: "finalizeUnstake db now walletKey seed = Inr (?db, ?r)"
    using found inactive cooldown late by (simp add: finalizeUnstake_def)
  have "findPositionByPda ?k ?db = Some (?f position)"
    using findPositionByPda_update [of ?f ?k db] found by simp
  then have second: "finalizeUnstake ?db later walletKey seed = Inl NoCooldown" for later
    using inactive by (simp add: finalizeUnstake_def)
  from first second
  show "\<exists>db' r. finalizeUnstake db now walletKey seed = Inr (db', r)
               \<and> fin_amount r = (case pendingPrincipal position of Some v \<Rightarrow> v | None \<Rightarrow> 0)
               \<and> (\<forall>later. finalizeUnstake db' later walletKey seed = Inl NoCooldown)"
    by simp
qed

theorem finalizeUnstake_time_gate_witness:
  "finalizeUnstake coolingDb 1700000001 ''alice'' 7 = Inl (CooldownNotElapsed 168)
   \<and> (\<exists>db' r. finalizeUnstake coolingDb 1700604800 ''alice'' 7 = Inr (db', r)
         \<and> fin_amount r = 950000000
         \<and> (\<forall>later. finalizeUnstake db' later ''alice'' 7 = Inl NoCooldown))"
proof -
  have inactive: "\<not> isActive coolingPosition"
    and cooldown: "cooldownEnd coolingPosition = Some 1700604800" "(1700604800 :: int) \<noteq> 0"
    by (simp_all add: coolingPosition_def)
  have pending: "pendingPrincipal coolingPosition = Some 950000000"
    by (simp add: coolingPosition_def)
  from finalizeUnstake_time_gate [OF cooling_found inactive cooldown, of 1700000001]
       finalizeUnstake_time_gate [OF cooling_found inactive cooldown, of 1700604800]
  show ?thesis by (simp add: pending ceilDiv_def)
qed

section \<open>Early close and its penalty\<close>

lemma heavy_numbers:
  "earlyPenaltyAmount heavyPosition = Num 14415680539960"
  "halfPenalty heavyPosition = Num 7207840269980"
  "principalAfterPenalty True heavyPosition = Num 100909763779728"
  by code_simp+

lemma heavy_found:
  "findPositionByPda (findStakePositionPda ''alice'' 7) heavyDb = Some heavyPosition"
  by (simp add: heavyDb_def heavyPosition_def scenario_defs findPositionByPda_def
      findStakePositionPda_def)

text \<open>
  Claim C3, as amended. An \<open>unstakeTokens\<close> call at \<open>now < unlockTs\<close> on an active
  position without cooldown, whose amount is not negative and has
  \<open>amount * rate < 2^53\<close> for the rate of the position's tier id, reports
  \<open>isEarlyUnstake\<close>, appends a penalty record with
  \<open>penaltyAmount = floor(amount * rate / 10000)\<close> and both shares
  \<open>floor(penalty / 2)\<close>, raises the \<open>totalRewardPool\<close> of the program state by exactly
  \<open>floor(penalty / 2)\<close> and sets the pending principal to \<open>amount - penalty\<close>. In the
  scenario (1_000_000_000 for 6 months, rate 500) the power multiplier is 150, a
  percentage, the staking power 1_500_000_000, the penalty 50_000_000, the pool's share
  25_000_000 and the pending principal 950_000_000.
\<close>

theorem unstakeTokens_early:
  assumes found: "findPositionByPda (findStakePositionPda walletKey seed) db = Some position"
      and active: "isActive position"
      and idle: "case cooldownEnd position of Some c \<Rightarrow> c \<le> 0 | None \<Rightarrow> True"
      and early: "now < unlockTs position"
      and nonneg: "0 \<le> amount position"
      and small: "amount position * getTierPenaltyMultiplier (tierId position)
                    < 9007199254740992"
  shows "(\<exists>db' r. unstakeTokens db cfg now walletKey seed = Inr (db', r)
           \<and> isEarlyUnstake r
           \<and> penaltyTransaction db' = penaltyTransaction db @
                [\<lparr> positionId = posId position, wallet = walletKey,
                   penaltyAmount =
                     (amount position * getTierPenaltyMultiplier (tierId position)) div 10000,
                   toRewardPool =
                     (amount position * getTierPenaltyMultiplier (tierId position)) div 10000
                       div 2,
                   toProtocol =
                     (amount position * getTierPenaltyMultiplier (tierId position)) div 10000
                       div 2,
                   tierMultiplier = getTierPenaltyMultiplier (tierId position) \<rparr>]
           \<and> programState db' =
               map_option
                 (\<lambda>s. s \<lparr> totalRewardPool :=
                             totalRewardPool s
                             + (amount position * getTierPenaltyMultiplier (tierId position))
                                 div 10000 div 2 \<rparr>)
                 (programState db)
           \<and> map_option pendingPrincipal
                (findPositionByPda (findStakePositionPda walletKey seed) db')
               = Some (Some (amount position
                             - (amount position
                                * getTierPenaltyMultiplier (tierId position)) div 10000)))
       \<and> stakeTokens scenarioDb 1700000000000 ''p1'' ''alice'' 1000000000 6 1 True (Some 7)
           = Inr (openDb,
                  \<lparr> st_positionId = ''p1'', st_pda = (''alice'', 7), st_positionSeed = 7,
                    st_amount = 1000000000, st_durationMonths = 6, st_powerMultiplier = 150,
                    st_stakingPower = 1500000000, st_unlockTimestamp = 1715552000 \<rparr>)
       \<and> unstakeTokens openDb defaultConfig 1700000000 ''alice'' 7
           = Inr (coolingDb,
                  \<lparr> un_positionId = ''p1'', un_pda = (''alice'', 7),
                    un_cooldownEnd = 1700604800, isEarlyUnstake = True \<rparr>)
       \<and> penaltyTransaction coolingDb = [scenarioPenalty]
       \<and> penaltyAmount scenarioPenalty = 50000000
       \<and> toRewardPool scenarioPenalty = 25000000
       \<and> map_option totalRewardPool (programState coolingDb) = Some (1000000000000 + 25000000)
       \<and> map_option pendingPrincipal
            (findPositionByPda (findStakePositionPda ''alice'' 7) coolingDb)
           = Some (Some 950000000)"
proof -
  let ?k = "findStakePositionPda walletKey seed"
  let ?pen = "(amount position * getTierPenaltyMultiplier (tierId position)) div 10000"
  let ?f = "\<lambda>p. p\<lparr> cooldownEnd :=
                       Some (now + (case cooldownPeriod cfg of Some c \<Rightarrow> c | None \<Rightarrow> 604800)),
                     pendingPrincipal := Some (amount position - ?pen), isActive := False \<rparr>"
  let ?db1 = "db\<lparr> penaltyTransaction := penaltyTransaction db @
                       [\<lparr> positionId = posId position, wallet = walletKey,
                          penaltyAmount = ?pen, toRewardPool = ?pen div 2,
                          toProtocol = ?pen div 2,
                          tierMultiplier = getTierPenaltyMultiplier (tierId position) \<rparr>],
                   programState :=
                     map_option (\<lambda>s. s\<lparr>totalRewardPool := totalRewardPool s + ?pen div 2\<rparr>)
                       (programState db) \<rparr>"
  have run: "unstakeTokens db cfg now walletKey seed =
           Inr (updatePositionByPda ?k ?f ?db1,
                \<lparr> un_positionId = posId position, un_pda = pda position,
                  un_cooldownEnd = now + (case cooldownPeriod cfg of Some c \<Rightarrow> c
                                          | None \<Rightarrow> 604800),
                  isEarlyUnstake = True \<rparr>)"
    by (rule early_unstake_run [OF found active idle early penalty_exact [OF nonneg small]])
  have kept: "findPositionByPda ?k ?db1 = Some position"
    using found by (simp add: findPositionByPda_def)
  have look: "findPositionByPda ?k (updatePositionByPda ?k ?f ?db1) = Some (?f position)"
    using findPositionByPda_update [of ?f ?k ?db1] kept by simp
  have general: "\<exists>db' r. unstakeTokens db cfg now walletKey seed = Inr (db', r)
           \<and> isEarlyUnstake r
           \<and> penaltyTransaction db' = penaltyTransaction db @
                [\<lparr> positionId = posId position, wallet = walletKey,
                   penaltyAmount = ?pen, toRewardPool = ?pen div 2, toProtocol = ?pen div 2,
                   tierMultiplier = getTierPenaltyMultiplier (tierId position) \<rparr>]
           \<and> programState db' =
               map_option (\<lambda>s. s \<lparr> totalRewardPool := totalRewardPool s + ?pen div 2 \<rparr>)
                 (programState db)
           \<and> map_option pendingPrincipal (findPositionByPda ?k db')
               = Some (Some (amount position - ?pen))"
    unfolding run using look by (simp add: updatePositionByPda_def)
  have concrete: "penaltyTransaction coolingDb = [scenarioPenalty]"
    "penaltyAmount scenarioPenalty = 50000000"
    "toRewardPool scenarioPenalty = 25000000"
    "map_option totalRewardPool (programState coolingDb) = Some (1000000000000 + 25000000)"
    "map_option pendingPrincipal
            (findPositionByPda (findStakePositionPda ''alice'' 7) coolingDb)
           = Some (Some 950000000)"
    by (simp_all add: cooling_found) (simp_all add: scenario_defs)
  from general stake_scenario unstake_scenario concrete show ?thesis by blast
qed

theorem unstakeTokens_early_witness:
  "\<exists>db' r. unstakeTokens openDb defaultConfig 1700000000 ''alice'' 7 = Inr (db', r)
      \<and> isEarlyUnstake r
      \<and> map penaltyAmount (penaltyTransaction db') = [50000000]
      \<and> map_option totalRewardPool (programState db') = Some 1000025000000
      \<and> map_option pendingPrincipal
           (findPositionByPda (findStakePositionPda ''alice'' 7) db') = Some (Some 950000000)"
proof -
  have active: "isActive openPosition"
    and idle: "case cooldownEnd openPosition of Some c \<Rightarrow> c \<le> 0 | None \<Rightarrow> True"
    and early: "1700000000 < unlockTs openPosition"
    and nonneg: "0 \<le> amount openPosition"
    and small: "amount openPosition * getTierPenaltyMultiplier (tierId openPosition)
                  < 9007199254740992"
    by (simp_all add: scenario_defs getTierPenaltyMultiplier_def tierPenalties_def)
  have vals: "amount openPosition = 1000000000"
    "getTierPenaltyMultiplier (tierId openPosition) = 500"
    "programState openDb = Some scenarioState" "penaltyTransaction openDb = []"
    "totalRewardPool scenarioState = 1000000000000"
    by (simp_all add: scenario_defs getTierPenaltyMultiplier_def tierPenalties_def)
  from unstakeTokens_early [OF open_found active idle early nonneg small, of defaultConfig]
  show ?thesis
    by (auto simp add: vals)
qed

text \<open>
  Against claim C3 as stated. The multiplier that \<open>stakeTokens\<close> computes, returns and
  stores for 6 months is 150, not 15000. For an open position of 115_325_444_319_688 in
  tier 4 (rate 1250) an early \<open>unstakeTokens\<close> records the penalty 14_415_680_539_960 and
  the pending principal 100_909_763_779_728, while \<open>floor(amount * rate / 10000)\<close> is
  14_415_680_539_961: the product passes \<open>2^53\<close> and is rounded before the division.
\<close>

theorem early_close_counterexample:
  "stakeTokens scenarioDb 1700000000000 ''p1'' ''alice'' 1000000000 6 1 True (Some 7)
     = Inr (openDb,
            \<lparr> st_positionId = ''p1'', st_pda = (''alice'', 7), st_positionSeed = 7,
              st_amount = 1000000000, st_durationMonths = 6, st_powerMultiplier = 150,
              st_stakingPower = 1500000000, st_unlockTimestamp = 1715552000 \<rparr>)
   \<and> powerMultiplier openPosition = 150
   \<and> calculatePowerMultiplier 6 \<noteq> 15000
   \<and> map_sum fst snd (unstakeTokens heavyDb defaultConfig 1700000000 ''alice'' 7)
       = Inr \<lparr> un_positionId = ''p1'', un_pda = (''alice'', 7),
               un_cooldownEnd = 1700604800, isEarlyUnstake = True \<rparr>
   \<and> map penaltyAmount
         (penaltyTransaction (step defaultConfig (InitiateClose 1700000000 ''alice'' 7) heavyDb))
       = [14415680539960]
   \<and> map pendingPrincipal
         (stakePosition (step defaultConfig (InitiateClose 1700000000 ''alice'' 7) heavyDb))
       = [Some 100909763779728]
   \<and> amount heavyPosition = 115325444319688
   \<and> getTierPenaltyMultiplier (tierId heavyPosition) = 1250
   \<and> (115325444319688 * 1250) div 10000 = (14415680539961 :: int)"
proof -
  have active: "isActive heavyPosition"
    and idle: "case cooldownEnd heavyPosition of Some c \<Rightarrow> c \<le> 0 | None \<Rightarrow> True"
    and early: "1700000000 < unlockTs heavyPosition"
    by (simp_all add: heavyPosition_def scenario_defs)
  note run = early_unstake_run [OF heavy_found active idle early heavy_numbers,
      of defaultConfig]
  have heavy: "map_sum fst snd (unstakeTokens heavyDb defaultConfig 1700000000 ''alice'' 7)
       = Inr \<lparr> un_positionId = ''p1'', un_pda = (''alice'', 7),
               un_cooldownEnd = 1700604800, isEarlyUnstake = True \<rparr>"
    "map penaltyAmount
         (penaltyTransaction (step defaultConfig (InitiateClose 1700000000 ''alice'' 7) heavyDb))
       = [14415680539960]"
    "map pendingPrincipal
         (stakePosition (step defaultConfig (InitiateClose 1700000000 ''alice'' 7) heavyDb))
       = [Some 100909763779728]"
    by (simp_all add: run)
       (simp_all add: heavyDb_def heavyPosition_def scenario_defs updatePositionByPda_def
        findStakePositionPda_def)
  have vals: "powerMultiplier openPosition = 150" "calculatePowerMultiplier 6 \<noteq> 15000"
    "amount heavyPosition = 115325444319688"
    "getTierPenaltyMultiplier (tierId heavyPosition) = 1250"
    "(115325444319688 * 1250) div 10000 = (14415680539961 :: int)"
    by (simp_all add: heavyPosition_def scenario_defs calculatePowerMultiplier_def
        getTierPenaltyMultiplier_def tierPenalties_def)
  from stake_scenario heavy vals show ?thesis by blast
qed

lemma untiered_numbers:
  "earlyPenaltyAmount untieredPosition = Num 14412149034148"
  "halfPenalty untieredPosition = Num 7206074517074"
  "principalAfterPenalty True untieredPosition = Num 273830831648832"
  by code_simp+

lemma untiered_found:
  "findPositionByPda (findStakePositionPda ''alice'' 7) untieredDb = Some untieredPosition"
  by (simp add: untieredDb_def untieredPosition_def scenario_defs findPositionByPda_def
      findStakePositionPda_def)

text \<open>
  Claim C10, as amended. The penalty rate is a fixed function of the tier id: 500 for tier
  1, 750 for tier 2, 1000 for tier 3, 1250 for tier 4 and 500 for every other id. An early
  \<open>unstakeTokens\<close> records that rate whatever the rows of the tier table are, and, for
  an amount that is not negative with \<open>amount * rate < 2^53\<close>, the penalty
  \<open>floor(amount * rate / 10000)\<close>; so a position with an unknown tier id pays
  \<open>floor(amount * 500 / 10000)\<close>.
\<close>

theorem getTierPenaltyMultiplier_table:
  assumes found: "findPositionByPda (findStakePositionPda walletKey seed) db = Some position"
      and active: "isActive position"
      and idle: "case cooldownEnd position of Some c \<Rightarrow> c \<le> 0 | None \<Rightarrow> True"
      and early: "now < unlockTs position"
      and nonneg: "0 \<le> amount position"
      and small: "amount position * getTierPenaltyMultiplier (tierId position)
                    < 9007199254740992"
  shows "getTierPenaltyMultiplier tid =
           (if tid = 1 then 500 else if tid = 2 then 750 else if tid = 3 then 1000
            else if tid = 4 then 1250 else 500)
       \<and> (\<exists>db' r. unstakeTokens (db \<lparr> stakingTier := tiers \<rparr>) cfg now walletKey seed
                     = Inr (db', r)
             \<and> map penaltyAmount (penaltyTransaction db')
                 = map penaltyAmount (penaltyTransaction db) @
                   [(amount position * getTierPenaltyMultiplier (tierId position)) div 10000]
             \<and> map tierMultiplier (penaltyTransaction db')
                 = map tierMultiplier (penaltyTransaction db) @
                   [getTierPenaltyMultiplier (tierId position)]
             \<and> (tierId position \<notin> {1, 2, 3, 4} \<longrightarrow>
                   map penaltyAmount (penaltyTransaction db')
                     = map penaltyAmount (penaltyTransaction db) @
                       [(amount position * 500) div 10000]))"
proof -
  have table: "getTierPenaltyMultiplier t =
           (if t = 1 then 500 else if t = 2 then 750 else if t = 3 then 1000
            else if t = 4 then 1250 else 500)" for t
    by (simp add: getTierPenaltyMultiplier_def tierPenalties_def)
  have found': "findPositionByPda (findStakePositionPda walletKey seed)
                  (db \<lparr> stakingTier := tiers \<rparr>) = Some position"
    using found by (simp add: findPositionByPda_def)
  have "\<exists>db' r. unstakeTokens (db \<lparr> stakingTier := tiers \<rparr>) cfg now walletKey seed
                     = Inr (db', r)
             \<and> map penaltyAmount (penaltyTransaction db')
                 = map penaltyAmount (penaltyTransaction db) @
                   [(amount position * getTierPenaltyMultiplier (tierId position)) div 10000]
             \<and> map tierMultiplier (penaltyTransaction db')
                 = map tierMultiplier (penaltyTransaction db) @
                   [getTierPenaltyMultiplier (tierId position)]"
    unfolding early_unstake_run [OF found' active idle early
        penalty_exact [OF nonneg small]]
    by (simp add: updatePositionByPda_def)
  then show ?thesis using table by auto
qed

theorem getTierPenaltyMultiplier_table_witness:
  "getTierPenaltyMultiplier 3 = 1000
   \<and> getTierPenaltyMultiplier 9 = 500
   \<and> (\<exists>db' r. unstakeTokens
                  (openDb \<lparr> stakePosition := [openPosition \<lparr> tierId := 9 \<rparr>],
                            stakingTier := [] \<rparr>)
                  defaultConfig 1700000000 ''alice'' 7 = Inr (db', r)
          \<and> map penaltyAmount (penaltyTransaction db') = [50000000]
          \<and> map tierMultiplier (penaltyTransaction db') = [500])"
proof -
  let ?p = "openPosition \<lparr> tierId := 9 \<rparr>"
  let ?db = "openDb \<lparr> stakePosition := [?p] \<rparr>"
  have found: "findPositionByPda (findStakePositionPda ''alice'' 7) ?db = Some ?p"
    by (simp add: scenario_defs findPositionByPda_def findStakePositionPda_def)
  have active: "isActive ?p"
    and idle: "case cooldownEnd ?p of Some c \<Rightarrow> c \<le> 0 | None \<Rightarrow> True"
    and early: "1700000000 < unlockTs ?p"
    and nonneg: "0 \<le> amount ?p"
    and small: "amount ?p * getTierPenaltyMultiplier (tierId ?p) < 9007199254740992"
    by (simp_all add: scenario_defs getTierPenaltyMultiplier_def tierPenalties_def)
  have vals: "amount ?p = 1000000000" "tierId ?p = 9" "penaltyTransaction ?db = []"
    by (simp_all add: scenario_defs)
  from getTierPenaltyMultiplier_table [OF found active idle early nonneg small,
         of 3 "[]" defaultConfig]
       getTierPenaltyMultiplier_table [OF found active idle early nonneg small,
         of 9 "[]" defaultConfig]
  show ?thesis by (auto simp add: vals)
qed

text \<open>
  Against claim C10 as stated. For an open position of 288_242_980_682_980 with the
  unknown tier id 9 an early \<open>unstakeTokens\<close> records the rate 500 and the penalty
  14_412_149_034_148, while \<open>floor(amount * 500 / 10000)\<close> is 14_412_149_034_149.
\<close>

theorem unknown_tier_counterexample:
  "map tierMultiplier
     (penaltyTransaction (step defaultConfig (InitiateClose 1700000000 ''alice'' 7) untieredDb))
     = [500]
   \<and> map penaltyAmount
         (penaltyTransaction
            (step defaultConfig (InitiateClose 1700000000 ''alice'' 7) untieredDb))
       = [14412149034148]
   \<and> amount untieredPosition = 288242980682980
   \<and> tierId untieredPosition = 9
   \<and> (288242980682980 * 500) div 10000 = (14412149034149 :: int)"
proof -
  have active: "isActive untieredPosition"
    and idle: "case cooldownEnd untieredPosition of Some c \<Rightarrow> c \<le> 0 | None \<Rightarrow> True"
    and early: "1700000000 < unlockTs untieredPosition"
    by (simp_all add: untieredPosition_def scenario_defs)
  note run = early_unstake_run [OF untiered_found active idle early untiered_numbers,
      of defaultConfig]
  have recorded: "map tierMultiplier
     (penaltyTransaction (step defaultConfig (InitiateClose 1700000000 ''alice'' 7) untieredDb))
     = [500]"
    "map penaltyAmount
         (penaltyTransaction
            (step defaultConfig (InitiateClose 1700000000 ''alice'' 7) untieredDb))
       = [14412149034148]"
    by (simp_all add: run)
       (simp_all add: untieredDb_def untieredPosition_def scenario_defs updatePositionByPda_def
        getTierPenaltyMultiplier_def tierPenalties_def)
  have vals: "amount untieredPosition = 288242980682980" "tierId untieredPosition = 9"
    "(288242980682980 * 500) div 10000 = (14412149034149 :: int)"
    by (simp_all add: untieredPosition_def scenario_defs)
  from recorded vals show ?thesis by blast
qed

section \<open>The totals of the program state\<close>

lemma stakeTokens_appends:
  assumes "stakeTokens db nowMs uuid walletKey amt months tid locked seedOpt = Inr (db', r)"
  shows "\<exists>row. db' = db \<lparr> stakePosition := stakePosition db @ [row] \<rparr>
           \<and> isActive row \<and> amount row = st_amount r \<and> stakingPower row = st_stakingPower r
           \<and> toBigInt (toNumber amt) = Some (amount row)
           \<and> toBigInt (stakingPowerOf amt (calculatePowerMultiplier months))
               = Some (stakingPower row)
           \<and> cooldownEnd row = None \<and> pendingPrincipal row = None
           \<and> pda row = st_pda r
           \<and> find (\<lambda>p. posId p = posId row \<or> pda p = pda row) (stakePosition db) = None"
  using assms
  by (auto simp add: stakeTokens_def createPosition_def Let_def
      split: option.splits if_splits sum.splits)











section \<open>The cooldown sweep\<close>

text \<open>
  Claim C2, evaluated. The position that \<open>unstakeTokens\<close> leaves in cooldown is inactive,
  has \<open>cooldownEnd = 1_700_604_800\<close> and a pending principal of 950_000_000. The sweep
  run at second 1_700_604_800 selects no row, reports \<open>finalized: 0\<close> and leaves the
  tables as they were, while \<open>finalizeUnstake\<close> at the same second finalizes the
  position and returns 950_000_000.
\<close>

theorem sweep_skips_cooling_position:
  "unstakeTokens openDb defaultConfig 1700000000 ''alice'' 7
     = Inr (coolingDb,
            \<lparr> un_positionId = ''p1'', un_pda = (''alice'', 7),
              un_cooldownEnd = 1700604800, isEarlyUnstake = True \<rparr>)
   \<and> stakePosition coolingDb = [coolingPosition]
   \<and> isActive coolingPosition = False
   \<and> cooldownEnd coolingPosition = Some 1700604800
   \<and> pendingPrincipal coolingPosition = Some 950000000
   \<and> positionsToFinalize 1700604800 coolingDb = []
   \<and> handleCooldownFinalization coolingDb 1700604800 = (coolingDb, NothingReady)
   \<and> finalized (snd (handleCooldownFinalization coolingDb 1700604800)) = 0
   \<and> finalizeUnstake coolingDb 1700604800 ''alice'' 7
       = Inr (coolingDb \<lparr> stakePosition := [closedPosition] \<rparr>,
              \<lparr> fin_positionId = ''p1'', fin_pda = (''alice'', 7),
                fin_amount = 950000000 \<rparr>)"
  by (simp add: unstake_scenario ready_scenario sweep_scenario finalize_scenario)
     (simp add: scenario_defs)

section \<open>The weekly distribution\<close>

lemma distributeTo_paid:
  "distributeTo now e T p (db, n, t) =
     (if paid e T p
      then (updatePositionById (posId p) (\<lambda>q. q\<lparr>lastRewardTs := now\<rparr>) db, Suc n,
            jsAdd t (userShare e T p))
      else (db, n, t))"
  by (simp add: distributeTo_def paid_def)

lemma touch_compose:
  "(\<lambda>q. if posId q \<in> A then q\<lparr>lastRewardTs := now\<rparr> else q) \<circ>
   (\<lambda>q. if posId q = i then q\<lparr>lastRewardTs := now\<rparr> else q)
   = (\<lambda>q. if posId q \<in> insert i A then q\<lparr>lastRewardTs := now\<rparr> else q)"
  by (auto simp add: fun_eq_iff)

lemma fold_distributeTo:
  "\<exists>t'. fold (distributeTo now e T) ps (db, n, t) =
     (db \<lparr> stakePosition :=
             map (\<lambda>q. if posId q \<in> posId ` {p \<in> set ps. paid e T p}
                       then q\<lparr>lastRewardTs := now\<rparr> else q) (stakePosition db) \<rparr>,
      n + length (filter (paid e T) ps), t')"
proof (induction ps arbitrary: db n t)
  case Nil
  then show ?case by simp
next
  case (Cons p ps)
  show ?case
  proof (cases "paid e T p")
    case False
    then have "{q \<in> set (p # ps). paid e T q} = {q \<in> set ps. paid e T q}" by auto
    with False Cons.IH [of db n t] show ?thesis
      by (simp add: distributeTo_paid)
  next
    case True
    let ?db = "updatePositionById (posId p) (\<lambda>q. q\<lparr>lastRewardTs := now\<rparr>) db"
    let ?A = "posId ` {q \<in> set ps. paid e T q}"
    have set: "posId ` {q \<in> set (p # ps). paid e T q} = insert (posId p) ?A"
      using True by auto
    from Cons.IH [of ?db "Suc n" "jsAdd t (userShare e T p)"]
    obtain t' where
      "fold (distributeTo now e T) ps (?db, Suc n, jsAdd t (userShare e T p)) =
       (?db \<lparr> stakePosition :=
             map (\<lambda>q. if posId q \<in> ?A
                       then q\<lparr>lastRewardTs := now\<rparr> else q) (stakePosition ?db) \<rparr>,
        Suc n + length (filter (paid e T) ps), t')" by blast
    then have "fold (distributeTo now e T) (p # ps) (db, n, t) =
       (db \<lparr> stakePosition :=
             map (\<lambda>q. if posId q \<in> insert (posId p) ?A
                       then q\<lparr>lastRewardTs := now\<rparr> else q) (stakePosition db) \<rparr>,
        n + length (filter (paid e T) (p # ps)), t')"
      using True by (simp add: distributeTo_paid updatePositionById_def touch_compose)
    then show ?thesis unfolding set by blast
  qed
qed

lemma paid_ids:
  assumes "distinct (map posId xs)" and "q \<in> set xs"
  shows "posId q \<in> posId ` {p \<in> set (filter isActive xs). paid e T p}
           \<longleftrightarrow> isActive q \<and> paid e T q"
proof -
  have "inj_on posId (set xs)" using assms(1) by (simp add: distinct_map)
  then show ?thesis using assms(2) by (auto dest: inj_onD)
qed

lemma weekly_run:
  assumes state: "programState db = Some state"
      and unpaused: "\<not> isPaused state"
      and some: "filter isActive (stakePosition db) \<noteq> []"
      and emission: "weeklyPoolEmission (toNumber (totalRewardPool state)) = Num e"
      and loop: "fold (distributeTo now (Num e) (toNumber (totalStakingPower state)))
                   (filter isActive (stakePosition db)) (db, 0, Num 0)
                 = (db1, n, t)"
  shows "handleWeeklyDistribution db now =
           Inr (db1 \<lparr> programState :=
                        map_option (\<lambda>s. s\<lparr> currentEpoch := currentEpoch state + 1,
                                             currentEpochStartTs := now,
                                             currentWeeklyEmission := Some e \<rparr>)
                          (programState db1) \<rparr>,
                Distributed (currentEpoch state + 1) n t e)"
  unfolding handleWeeklyDistribution_def Let_def state option.case emission
  using unpaused some loop by (simp del: filter_empty_conv)

lemma paid_exact:
  assumes "0 \<le> e" and "0 \<le> stakingPower p" and "stakingPower p < 9007199254740992"
      and "e * stakingPower p < 9007199254740992"
      and "0 < T" and "T < 9007199254740992"
  shows "paid (Num e) (toNumber T) p = (0 < (e * stakingPower p) div T)"
proof -
  have a: "toNumber (stakingPower p) = Num (stakingPower p)"
    using assms(2,3) by (intro toNumber_small) simp
  have b: "toNumber T = Num T" using assms(5,6) by (intro toNumber_small) simp
  show ?thesis
    unfolding paid_def userShare_def a b share_exact [OF assms(1,2,5,4)] by simp
qed

text \<open>
  Claim C8, as amended. With a program state present: when it is paused the weekly job
  writes nothing and reports \<open>skipped\<close>; when it is not paused and no position is active
  the job writes nothing either and reports nothing distributed; otherwise, for a reward
  pool that is not negative and has \<open>pool * 21 < 2^53\<close>, it computes the weekly emission
  \<open>floor(totalRewardPool * 21 / 10000)\<close>, advances \<open>lastRewardTs\<close> to \<open>now\<close> for
  exactly the active positions whose share of it is positive, increments the epoch by 1,
  sets the epoch start to \<open>now\<close> and stores the emission. The share is
  \<open>floor(emission * stakingPower / totalStakingPower)\<close> as long as its operands and the
  product are non-negative and below \<open>2^53\<close>.
\<close>

theorem handleWeeklyDistribution_spec:
  assumes state: "programState db = Some state"
      and ids: "distinct (map posId (stakePosition db))"
  shows "(isPaused state \<longrightarrow> handleWeeklyDistribution db now = Inr (db, Skipped))
       \<and> (\<not> isPaused state \<and> filter isActive (stakePosition db) = [] \<longrightarrow>
            handleWeeklyDistribution db now = Inr (db, NoActivePositions))
       \<and> (\<not> isPaused state \<and> filter isActive (stakePosition db) \<noteq> []
            \<and> 0 \<le> totalRewardPool state
            \<and> totalRewardPool state * 21 < 9007199254740992 \<longrightarrow>
            (\<exists>db' total.
               handleWeeklyDistribution db now =
                 Inr (db', Distributed (currentEpoch state + 1)
                        (length (filter (\<lambda>p. isActive p \<and>
                                   paid (Num ((totalRewardPool state * 21) div 10000))
                                        (toNumber (totalStakingPower state)) p)
                                  (stakePosition db)))
                        total ((totalRewardPool state * 21) div 10000))
               \<and> programState db' =
                   Some (state \<lparr> currentEpoch := currentEpoch state + 1,
                                 currentEpochStartTs := now,
                                 currentWeeklyEmission :=
                                   Some ((totalRewardPool state * 21) div 10000) \<rparr>)
               \<and> stakePosition db' =
                   map (\<lambda>p. if isActive p \<and>
                                paid (Num ((totalRewardPool state * 21) div 10000))
                                     (toNumber (totalStakingPower state)) p
                             then p\<lparr>lastRewardTs := now\<rparr> else p) (stakePosition db)))
       \<and> (\<forall>p :: StakePosition.
              0 \<le> totalRewardPool state
              \<and> 0 \<le> stakingPower p \<and> stakingPower p < 9007199254740992
              \<and> (totalRewardPool state * 21) div 10000 * stakingPower p < 9007199254740992
              \<and> 0 < totalStakingPower state \<and> totalStakingPower state < 9007199254740992
              \<longrightarrow>
              paid (Num ((totalRewardPool state * 21) div 10000))
                   (toNumber (totalStakingPower state)) p
                = (0 < ((totalRewardPool state * 21) div 10000 * stakingPower p)
                         div totalStakingPower state))"
proof (intro conjI impI allI)
  assume "isPaused state"
  then show "handleWeeklyDistribution db now = Inr (db, Skipped)"
    using state by (simp add: handleWeeklyDistribution_def)
next
  assume "\<not> isPaused state \<and> filter isActive (stakePosition db) = []"
  then show "handleWeeklyDistribution db now = Inr (db, NoActivePositions)"
    using state by (simp add: handleWeeklyDistribution_def)
next
  fix p :: StakePosition
  let ?e = "(totalRewardPool state * 21) div 10000"
  assume h: "0 \<le> totalRewardPool state
              \<and> 0 \<le> stakingPower p \<and> stakingPower p < 9007199254740992
              \<and> ?e * stakingPower p < 9007199254740992
              \<and> 0 < totalStakingPower state \<and> totalStakingPower state < 9007199254740992"
  have e0: "0 \<le> ?e" using h by (simp add: pos_imp_zdiv_nonneg_iff)
  from h show "paid (Num ?e) (toNumber (totalStakingPower state)) p
                = (0 < (?e * stakingPower p) div totalStakingPower state)"
    by (intro paid_exact [OF e0]) simp_all
next
  assume run: "\<not> isPaused state \<and> filter isActive (stakePosition db) \<noteq> []
            \<and> 0 \<le> totalRewardPool state
            \<and> totalRewardPool state * 21 < 9007199254740992"
  then have nonneg: "0 \<le> totalRewardPool state"
    and small: "totalRewardPool state * 21 < 9007199254740992" by simp_all
  let ?e = "(totalRewardPool state * 21) div 10000"
  let ?T = "toNumber (totalStakingPower state)"
  let ?ps = "filter isActive (stakePosition db)"
  have "\<bar>totalRewardPool state\<bar> < 9007199254740992" using nonneg small by simp
  then have "toNumber (totalRewardPool state) = Num (totalRewardPool state)"
    by (rule toNumber_small)
  then have emission: "weeklyPoolEmission (toNumber (totalRewardPool state)) = Num ?e"
    using emission_exact [OF nonneg small] by simp
  from fold_distributeTo [of now "Num ?e" ?T ?ps db 0 "Num 0"]
  obtain t' where loop: "fold (distributeTo now (Num ?e) ?T) ?ps (db, 0, Num 0) =
     (db \<lparr> stakePosition :=
             map (\<lambda>q. if posId q \<in> posId ` {p \<in> set ?ps. paid (Num ?e) ?T p}
                       then q\<lparr>lastRewardTs := now\<rparr> else q) (stakePosition db) \<rparr>,
      0 + length (filter (paid (Num ?e) ?T) ?ps), t')" by blast
  have rows: "map (\<lambda>q. if posId q \<in> posId ` {p \<in> set ?ps. paid (Num ?e) ?T p}
                       then q\<lparr>lastRewardTs := now\<rparr> else q) (stakePosition db)
            = map (\<lambda>p. if isActive p \<and> paid (Num ?e) ?T p
                        then p\<lparr>lastRewardTs := now\<rparr> else p) (stakePosition db)"
  proof (rule map_cong [OF refl])
    fix q
    assume "q \<in> set (stakePosition db)"
    then have h: "posId q \<in> posId ` {p \<in> set ?ps. paid (Num ?e) ?T p}
                    \<longleftrightarrow> isActive q \<and> paid (Num ?e) ?T q"
      by (rule paid_ids [OF ids])
    show "(if posId q \<in> posId ` {p \<in> set ?ps. paid (Num ?e) ?T p}
           then q\<lparr>lastRewardTs := now\<rparr> else q)
        = (if isActive q \<and> paid (Num ?e) ?T q then q\<lparr>lastRewardTs := now\<rparr> else q)"
      unfolding h ..
  qed
  have count: "length (filter (paid (Num ?e) ?T) ?ps)
             = length (filter (\<lambda>p. isActive p \<and> paid (Num ?e) ?T p) (stakePosition db))"
    by (simp add: conj_commute)
  let ?db1 = "db \<lparr> stakePosition :=
             map (\<lambda>p. if isActive p \<and> paid (Num ?e) ?T p
                       then p\<lparr>lastRewardTs := now\<rparr> else p) (stakePosition db) \<rparr>"
  have loop': "fold (distributeTo now (Num ?e) ?T) ?ps (db, 0, Num 0) =
     (?db1, length (filter (\<lambda>p. isActive p \<and> paid (Num ?e) ?T p) (stakePosition db)), t')"
    using loop unfolding rows count by simp
  have unpaused: "\<not> isPaused state" and some: "?ps \<noteq> []" using run by blast+
  have "handleWeeklyDistribution db now =
           Inr (?db1 \<lparr> programState :=
                        map_option (\<lambda>s. s\<lparr> currentEpoch := currentEpoch state + 1,
                                             currentEpochStartTs := now,
                                             currentWeeklyEmission := Some ?e \<rparr>)
                          (programState ?db1) \<rparr>,
                Distributed (currentEpoch state + 1)
                  (length (filter (\<lambda>p. isActive p \<and> paid (Num ?e) ?T p) (stakePosition db)))
                  t' ?e)"
    by (rule weekly_run [OF state unpaused some emission loop'])
  moreover have "programState ?db1 = Some state" using state by simp
  ultimately show "\<exists>db' total.
               handleWeeklyDistribution db now =
                 Inr (db', Distributed (currentEpoch state + 1)
                        (length (filter (\<lambda>p. isActive p \<and> paid (Num ?e) ?T p)
                                  (stakePosition db)))
                        total ?e)
               \<and> programState db' =
                   Some (state \<lparr> currentEpoch := currentEpoch state + 1,
                                 currentEpochStartTs := now,
                                 currentWeeklyEmission := Some ?e \<rparr>)
               \<and> stakePosition db' =
                   map (\<lambda>p. if isActive p \<and> paid (Num ?e) ?T p
                             then p\<lparr>lastRewardTs := now\<rparr> else p) (stakePosition db)"
    by simp
qed

lemma poor_numbers:
  "weeklyPoolEmission (toNumber 100) = Num 0"
  "userShare (Num 0) (toNumber 0) openPosition = NaN"
  by code_simp+

lemma weekly_poor:
  "handleWeeklyDistribution poorDb 1700700000 =
     Inr (poorDb \<lparr> programState :=
                     Some (scenarioState \<lparr> totalRewardPool := 100, currentEpoch := 2,
                             currentEpochStartTs := 1700700000,
                             currentWeeklyEmission := Some 0 \<rparr>) \<rparr>,
          Distributed 2 0 (Num 0) 0)"
proof -
  have state: "programState poorDb = Some (scenarioState \<lparr> totalRewardPool := 100 \<rparr>)"
    and unpaused: "\<not> isPaused (scenarioState \<lparr> totalRewardPool := 100 \<rparr>)"
    and some: "filter isActive (stakePosition poorDb) \<noteq> []"
    and emission: "weeklyPoolEmission
                     (toNumber (totalRewardPool (scenarioState \<lparr> totalRewardPool := 100 \<rparr>)))
                   = Num 0"
    by (simp_all add: poorDb_def scenario_defs poor_numbers)
  have loop: "fold (distributeTo 1700700000 (Num 0)
                      (toNumber (totalStakingPower (scenarioState \<lparr> totalRewardPool := 100 \<rparr>))))
                (filter isActive (stakePosition poorDb)) (poorDb, 0, Num 0)
              = (poorDb, 0, Num 0)"
    using poor_numbers(2)
    by (simp add: poorDb_def openDb_def scenarioDb_def scenarioState_def distributeTo_def)
  from weekly_run [OF state unpaused some emission loop]
  show ?thesis by (simp add: poorDb_def scenario_defs)
qed

lemma rich_numbers:
  "weeklyPoolEmission (toNumber 430000000007619) = Num 903000000016"
  "userShare (Num 903000000016) (toNumber 1500000000) openPosition = Num 903000000016"
  by code_simp+

lemma weekly_rich:
  "handleWeeklyDistribution richDb 1700700000 =
     Inr (richDb \<lparr> stakePosition := [openPosition \<lparr> lastRewardTs := 1700700000 \<rparr>],
                   programState :=
                     Some (scenarioState \<lparr> totalRewardPool := 430000000007619,
                             totalStakingPower := 1500000000, currentEpoch := 2,
                             currentEpochStartTs := 1700700000,
                             currentWeeklyEmission := Some 903000000016 \<rparr>) \<rparr>,
          Distributed 2 1 (Num 903000000016) 903000000016)"
proof -
  let ?s = "scenarioState \<lparr> totalRewardPool := 430000000007619,
                            totalStakingPower := 1500000000 \<rparr>"
  have state: "programState richDb = Some ?s"
    and unpaused: "\<not> isPaused ?s"
    and some: "filter isActive (stakePosition richDb) \<noteq> []"
    and emission: "weeklyPoolEmission (toNumber (totalRewardPool ?s)) = Num 903000000016"
    by (simp_all add: richDb_def scenario_defs rich_numbers)
  have sum: "jsAdd (Num 0) (Num 903000000016) = Num 903000000016" by code_simp
  have loop: "fold (distributeTo 1700700000 (Num 903000000016)
                      (toNumber (totalStakingPower ?s)))
                (filter isActive (stakePosition richDb)) (richDb, 0, Num 0)
              = (richDb \<lparr> stakePosition := [openPosition \<lparr> lastRewardTs := 1700700000 \<rparr>] \<rparr>,
                 1, Num 903000000016)"
    using rich_numbers(2) sum
    by (simp add: richDb_def openDb_def scenarioDb_def scenarioState_def distributeTo_def
        updatePositionById_def)
       (simp add: openPosition_def coolingPosition_def)
  from weekly_run [OF state unpaused some emission loop]
  show ?thesis by (simp add: richDb_def scenario_defs)
qed



text \<open>
  Against claim C8 as stated. Not paused and no position: the epoch stays. Not paused and
  one active position whose share is not positive: the epoch advances and the position's
  \<open>lastRewardTs\<close> stays. With a pool of 430_000_000_007_619 the job stores the weekly
  emission 903_000_000_016, while \<open>floor(pool * 21 / 10000)\<close> is 903_000_000_015.
\<close>

theorem weekly_job_counterexample:
  "handleWeeklyDistribution scenarioDb 1700700000 = Inr (scenarioDb, NoActivePositions)
   \<and> map_option isPaused (programState scenarioDb) = Some False
   \<and> handleWeeklyDistribution poorDb 1700700000 =
       Inr (poorDb \<lparr> programState :=
                       Some (scenarioState \<lparr> totalRewardPool := 100, currentEpoch := 2,
                               currentEpochStartTs := 1700700000,
                               currentWeeklyEmission := Some 0 \<rparr>) \<rparr>,
            Distributed 2 0 (Num 0) 0)
   \<and> map isActive (stakePosition poorDb) = [True]
   \<and> map lastRewardTs (stakePosition poorDb) = [1700000000]
   \<and> handleWeeklyDistribution richDb 1700700000 =
       Inr (richDb \<lparr> stakePosition := [openPosition \<lparr> lastRewardTs := 1700700000 \<rparr>],
                     programState :=
                       Some (scenarioState \<lparr> totalRewardPool := 430000000007619,
                               totalStakingPower := 1500000000, currentEpoch := 2,
                               currentEpochStartTs := 1700700000,
                               currentWeeklyEmission := Some 903000000016 \<rparr>) \<rparr>,
            Distributed 2 1 (Num 903000000016) 903000000016)
   \<and> map_option totalRewardPool (programState richDb) = Some 430000000007619
   \<and> (430000000007619 * 21) div 10000 = (903000000015 :: int)"
  by (simp add: weekly_poor weekly_rich)
     (simp add: richDb_def poorDb_def scenario_defs handleWeeklyDistribution_def)

theorem handleWeeklyDistribution_spec_witness:
  "handleWeeklyDistribution
       (scenarioDb \<lparr> programState := Some (scenarioState \<lparr> isPaused := True \<rparr>) \<rparr>) 1700700000
     = Inr (scenarioDb \<lparr> programState := Some (scenarioState \<lparr> isPaused := True \<rparr>) \<rparr>, Skipped)
   \<and> handleWeeklyDistribution scenarioDb 1700700000 = Inr (scenarioDb, NoActivePositions)
   \<and> (\<exists>db' total.
         handleWeeklyDistribution fundedDb 1700700000 =
           Inr (db', Distributed 2 1 total 2100000000)
         \<and> map_option currentEpoch (programState db') = Some 2
         \<and> map_option currentEpochStartTs (programState db') = Some 1700700000
         \<and> map_option currentWeeklyEmission (programState db') = Some (Some 2100000000)
         \<and> map lastRewardTs (stakePosition db') = [1700700000])"
proof -
  let ?paused = "scenarioDb \<lparr> programState := Some (scenarioState \<lparr> isPaused := True \<rparr>) \<rparr>"
  let ?funded = "scenarioState \<lparr> totalStakingPower := 1500000000 \<rparr>"
  have s1: "programState ?paused = Some (scenarioState \<lparr> isPaused := True \<rparr>)"
    and i1: "distinct (map posId (stakePosition ?paused))"
    and s2: "programState scenarioDb = Some scenarioState"
    and i2: "distinct (map posId (stakePosition scenarioDb))"
    and s3: "programState fundedDb = Some ?funded"
    and i3: "distinct (map posId (stakePosition fundedDb))"
    by (simp_all add: fundedDb_def scenario_defs)
  have rows: "stakePosition fundedDb = [openPosition]" "stakePosition scenarioDb = []"
    by (simp_all add: fundedDb_def scenario_defs)
  have share: "paid (Num 2100000000) (toNumber 1500000000) openPosition" by code_simp
  have vals: "isActive openPosition" "stakingPower openPosition = 1500000000"
    "lastRewardTs openPosition = 1700000000"
    "totalRewardPool scenarioState = 1000000000000" "currentEpoch scenarioState = 1"
    "totalStakingPower ?funded = 1500000000" "totalRewardPool ?funded = 1000000000000"
    "currentEpoch ?funded = 1"
    "\<not> isPaused scenarioState" "\<not> isPaused ?funded" "isPaused (scenarioState \<lparr> isPaused := True \<rparr>)"
    by (simp_all add: scenario_defs)
  from handleWeeklyDistribution_spec [OF s3 i3, of 1700700000]
  have third: "\<exists>db' total.
         handleWeeklyDistribution fundedDb 1700700000 =
           Inr (db', Distributed 2 1 total 2100000000)
         \<and> map_option currentEpoch (programState db') = Some 2
         \<and> map_option currentEpochStartTs (programState db') = Some 1700700000
         \<and> map_option currentWeeklyEmission (programState db') = Some (Some 2100000000)
         \<and> map lastRewardTs (stakePosition db') = [1700700000]"
    by (auto simp add: rows vals share)
  from handleWeeklyDistribution_spec [OF s1 i1, of 1700700000]
       handleWeeklyDistribution_spec [OF s2 i2, of 1700700000]
       third
  show ?thesis
    by (simp add: rows vals)
qed

section \<open>Claiming rewards\<close>













section \<open>Cooldown and pending principal\<close>

lemma penalty_keeps_rows:
  assumes "applyEarlyPenalty walletKey position db = Inr db1"
  shows "stakePosition db1 = stakePosition db"
  using assms by (auto simp add: applyEarlyPenalty_def split: option.splits)

lemma unstakeTokens_success:
  assumes "unstakeTokens db cfg now walletKey seed = Inr (db', r)"
  shows "\<exists>position v.
           findPositionByPda (findStakePositionPda walletKey seed) db = Some position
           \<and> isActive position
           \<and> stakePosition db' =
               map (\<lambda>p. if pda p = findStakePositionPda walletKey seed
                         then p\<lparr> cooldownEnd :=
                                    Some (now + (case cooldownPeriod cfg of Some c \<Rightarrow> c
                                                 | None \<Rightarrow> 604800)),
                                  pendingPrincipal := Some v, isActive := False \<rparr>
                         else p) (stakePosition db)"
  using assms
  by (auto simp add: unstakeTokens_def updatePositionByPda_def Let_def
      dest!: penalty_keeps_rows split: option.splits if_splits sum.splits)

lemma unstakeTokens_failure:
  assumes "unstakeTokens db cfg now walletKey seed = Inl (e, db1)"
  shows "stakePosition db1 = stakePosition db"
  using assms
  by (auto simp add: unstakeTokens_def Let_def
      dest!: penalty_keeps_rows split: option.splits if_splits sum.splits)

lemma finalizeUnstake_success:
  assumes "finalizeUnstake db now walletKey seed = Inr (db', r)"
  shows "\<exists>position.
           findPositionByPda (findStakePositionPda walletKey seed) db = Some position
           \<and> \<not> isActive position
           \<and> fin_pda r = pda position
           \<and> stakePosition db' =
               map (\<lambda>p. if pda p = findStakePositionPda walletKey seed
                         then p\<lparr> cooldownEnd := Some 0, pendingPrincipal := Some 0,
                                  amount := 0 \<rparr>
                         else p) (stakePosition db)"
  using assms
  by (auto simp add: finalizeUnstake_def updatePositionByPda_def Let_def
      split: option.splits if_splits)

lemma found_row:
  assumes "findPositionByPda k db = Some position"
  shows "position \<in> set (stakePosition db) \<and> pda position = k"
  using assms by (auto simp add: findPositionByPda_def find_Some_iff)

lemma map_pda_update:
  assumes "\<And>q. pda (f q) = pda q"
  shows "map pda (map (\<lambda>p. if pda p = k then f p else p) xs) = map pda xs"
  using assms by (induction xs) auto

lemma inv_same_rows:
  assumes "lifecycleInv db fin" and "stakePosition db1 = stakePosition db"
  shows "lifecycleInv db1 fin"
  using assms by (simp add: lifecycleInv_def)

lemma inv_open:
  assumes inv: "lifecycleInv db fin"
      and ok: "stakeTokens db nowMs uuid walletKey amt months tid locked seedOpt = Inr (db', r)"
  shows "lifecycleInv db' fin"
proof -
  from stakeTokens_appends [OF ok] obtain row where
    db': "db' = db \<lparr> stakePosition := stakePosition db @ [row] \<rparr>"
    and row: "isActive row" "cooldownEnd row = None" "pendingPrincipal row = None"
    and fresh: "find (\<lambda>p. posId p = posId row \<or> pda p = pda row) (stakePosition db) = None"
    by blast
  from fresh have new: "pda row \<notin> pda ` set (stakePosition db)"
    by (auto simp add: find_None_iff)
  with inv have "pda row \<notin> set fin" by (auto simp add: lifecycleInv_def)
  with row have "shape fin row" by (simp add: shape_def)
  with inv new show ?thesis by (auto simp add: lifecycleInv_def db')
qed

lemma inv_initiate:
  assumes inv: "lifecycleInv db fin"
      and timed: "now + (case cooldownPeriod cfg of Some c \<Rightarrow> c | None \<Rightarrow> 604800) \<noteq> 0"
      and ok: "unstakeTokens db cfg now walletKey seed = Inr (db', r)"
  shows "lifecycleInv db' fin"
proof -
  let ?k = "findStakePositionPda walletKey seed"
  let ?c = "now + (case cooldownPeriod cfg of Some c \<Rightarrow> c | None \<Rightarrow> 604800)"
  from unstakeTokens_success [OF ok] obtain position v where
    found: "findPositionByPda ?k db = Some position" and active: "isActive position"
    and rows: "stakePosition db' =
       map (\<lambda>p. if pda p = ?k
                 then p\<lparr> cooldownEnd := Some ?c, pendingPrincipal := Some v, isActive := False \<rparr>
                 else p) (stakePosition db)" by blast
  let ?f = "\<lambda>p. p\<lparr> cooldownEnd := Some ?c, pendingPrincipal := Some v, isActive := False \<rparr>"
  have pdas: "map pda (stakePosition db') = map pda (stakePosition db)"
    unfolding rows by (rule map_pda_update) simp
  from found_row [OF found] inv active have "?k \<notin> set fin"
    by (auto simp add: lifecycleInv_def shape_def)
  then have new: "shape fin (?f p)" if "pda p = ?k" for p
    using that timed by (simp add: shape_def)
  have "\<forall>p \<in> set (stakePosition db'). shape fin p"
    using inv new by (auto simp add: rows lifecycleInv_def)
  moreover have "pda ` set (stakePosition db') = pda ` set (stakePosition db)"
    using pdas by (metis set_map)
  ultimately show ?thesis using inv pdas by (simp add: lifecycleInv_def)
qed

lemma inv_finalize:
  assumes inv: "lifecycleInv db fin"
      and ok: "finalizeUnstake db now walletKey seed = Inr (db', r)"
  shows "lifecycleInv db' (fin_pda r # fin)"
proof -
  let ?k = "findStakePositionPda walletKey seed"
  let ?f = "\<lambda>p. p\<lparr> cooldownEnd := Some 0, pendingPrincipal := Some 0, amount := 0 \<rparr>"
  from finalizeUnstake_success [OF ok] obtain position where
    found: "findPositionByPda ?k db = Some position" and inactive: "\<not> isActive position"
    and key: "fin_pda r = pda position"
    and rows: "stakePosition db' = map (\<lambda>p. if pda p = ?k then ?f p else p) (stakePosition db)"
    by blast
  from found_row [OF found] have mem: "position \<in> set (stakePosition db)"
    and k: "pda position = ?k" by simp_all
  have pdas: "map pda (stakePosition db') = map pda (stakePosition db)"
    unfolding rows by (rule map_pda_update) simp
  have img: "pda ` set (stakePosition db') = pda ` set (stakePosition db)"
    using pdas by (metis set_map)
  have "inj_on pda (set (stakePosition db))"
    using inv by (simp add: lifecycleInv_def distinct_map)
  then have only: "p = position" if "p \<in> set (stakePosition db)" "pda p = ?k" for p
    using that mem k by (metis inj_onD)
  have hit: "shape (?k # fin) (?f p)" if "p \<in> set (stakePosition db)" "pda p = ?k" for p
    using only [OF that] inactive that(2) by (simp add: shape_def)
  have miss: "shape (?k # fin) p" if "p \<in> set (stakePosition db)" "pda p \<noteq> ?k" for p
  proof -
    from inv that(1) have "shape fin p" by (simp add: lifecycleInv_def)
    then show ?thesis using that(2)
      by (cases "isActive p"; cases "cooldownEnd p") (simp_all add: shape_def)
  qed
  have shapes: "\<forall>p \<in> set (stakePosition db'). shape (?k # fin) p"
    using hit miss by (auto simp add: rows)
  have "?k \<in> pda ` set (stakePosition db)"
    using mem k by (metis imageI)
  then have sub: "set (?k # fin) \<subseteq> pda ` set (stakePosition db')"
    using inv img by (simp add: lifecycleInv_def)
  from shapes sub inv pdas show ?thesis
    by (simp add: lifecycleInv_def key k)
qed

lemma inv_nothing_ready:
  assumes "lifecycleInv db fin"
  shows "positionsToFinalize now db = []"
  using assms
  by (auto simp add: positionsToFinalize_def readyToFinalize_def lifecycleInv_def shape_def
      filter_empty_conv split: option.splits if_splits)

lemma inv_step:
  assumes inv: "lifecycleInv db fin" and timed: "wellTimed cfg x"
  shows "lifecycleInv (step cfg x db) (finalizedBy cfg x db @ fin)"
proof (cases x)
  case (Open nowMs uuid walletKey amt months tid locked seedOpt)
  then show ?thesis
    using inv
    by (cases "stakeTokens db nowMs uuid walletKey amt months tid locked seedOpt")
       (auto dest: inv_open)
next
  case (InitiateClose now walletKey seed)
  show ?thesis
  proof (cases "unstakeTokens db cfg now walletKey seed")
    case (Inl e)
    then have "stakePosition (snd e) = stakePosition db"
      using unstakeTokens_failure [of db cfg now walletKey seed "fst e" "snd e"] by simp
    from inv_same_rows [OF inv this] show ?thesis using InitiateClose Inl by simp
  next
    case (Inr r)
    then show ?thesis
      using InitiateClose inv timed inv_initiate [of db fin now cfg walletKey seed "fst r" "snd r"]
      by simp
  qed
next
  case (FinalizeClose now walletKey seed)
  then show ?thesis
    using inv
    by (cases "finalizeUnstake db now walletKey seed") (auto dest: inv_finalize)
next
  case (Sweep now)
  then show ?thesis
    using inv inv_nothing_ready [OF inv, of now]
    by (simp add: handleCooldownFinalization_def)
qed

lemma inv_run:
  assumes "lifecycleInv (fst s) (snd s)" and "list_all (wellTimed cfg) ops"
  shows "lifecycleInv (fst (run cfg ops s)) (snd (run cfg ops s))"
  using assms
proof (induction ops arbitrary: s)
  case Nil
  then show ?case by simp
next
  case (Cons x xs)
  from Cons.prems have "lifecycleInv (step cfg x (fst s)) (finalizedBy cfg x (fst s) @ snd s)"
    by (simp add: inv_step)
  with Cons.IH [of "(step cfg x (fst s), finalizedBy cfg x (fst s) @ snd s)"] Cons.prems
  show ?case by simp
qed

lemma inv_coupling:
  assumes "lifecycleInv db fin" and "p \<in> set (stakePosition db)"
  shows "(pendingPrincipal p \<noteq> None \<longleftrightarrow> cooldownEnd p \<noteq> None)
       \<and> ((\<exists>c. cooldownEnd p = Some c \<and> c \<noteq> 0) \<longleftrightarrow> \<not> isActive p \<and> pda p \<notin> set fin)
       \<and> (pda p \<in> set fin \<longrightarrow> \<not> isActive p \<and> cooldownEnd p = Some 0)"
proof -
  from assms have "shape fin p" by (simp add: lifecycleInv_def)
  then show ?thesis
    by (cases "isActive p"; cases "cooldownEnd p") (auto simp add: shape_def)
qed

text \<open>
  Claim C9, as amended. Starting from an empty position table, after every sequence of
  \<open>stakeTokens\<close>, \<open>unstakeTokens\<close>, \<open>finalizeUnstake\<close> and sweep operations (each
  cooldown ending at a second other than 0), every position has \<open>pendingPrincipal\<close>
  non-null exactly when \<open>cooldownEnd\<close> is non-null, and has \<open>cooldownEnd\<close> neither
  null nor 0 exactly when it is inactive and no operation of the sequence has finalized
  its withdrawal: a finalized position is inactive with \<open>cooldownEnd\<close> 0, not null. In
  every such state the sweep selects no position.
\<close>

theorem cooldown_coupling:
  assumes "stakePosition db = []" and "list_all (wellTimed cfg) ops"
  shows "(\<forall>p \<in> set (stakePosition (fst (run cfg ops (db, [])))).
           (pendingPrincipal p \<noteq> None \<longleftrightarrow> cooldownEnd p \<noteq> None)
         \<and> ((\<exists>c. cooldownEnd p = Some c \<and> c \<noteq> 0) \<longleftrightarrow>
              \<not> isActive p \<and> pda p \<notin> set (snd (run cfg ops (db, []))))
         \<and> (pda p \<in> set (snd (run cfg ops (db, []))) \<longrightarrow>
              \<not> isActive p \<and> cooldownEnd p = Some 0))
       \<and> (\<forall>now. positionsToFinalize now (fst (run cfg ops (db, []))) = [])"
proof -
  have "lifecycleInv (fst (db, [])) (snd (db, []))"
    using assms(1) by (simp add: lifecycleInv_def)
  from inv_run [OF this assms(2)]
  have inv: "lifecycleInv (fst (run cfg ops (db, []))) (snd (run cfg ops (db, [])))" .
  from inv_coupling [OF inv] inv_nothing_ready [OF inv] show ?thesis by blast
qed

theorem cooldown_coupling_witness:
  "stakePosition (fst (run defaultConfig coolingOps (scenarioDb, []))) = [coolingPosition]
   \<and> snd (run defaultConfig coolingOps (scenarioDb, [])) = []
   \<and> pendingPrincipal coolingPosition = Some 950000000
   \<and> cooldownEnd coolingPosition = Some 1700604800
   \<and> isActive coolingPosition = False
   \<and> positionsToFinalize 1700604800 (fst (run defaultConfig coolingOps (scenarioDb, []))) = []
   \<and> stakePosition (fst (run defaultConfig
         (coolingOps @ [FinalizeClose 1700604800 ''alice'' 7]) (scenarioDb, [])))
       = [closedPosition]
   \<and> snd (run defaultConfig
         (coolingOps @ [FinalizeClose 1700604800 ''alice'' 7]) (scenarioDb, []))
       = [pda closedPosition]
   \<and> pendingPrincipal closedPosition = Some 0
   \<and> cooldownEnd closedPosition = Some 0
   \<and> isActive closedPosition = False"
proof -
  have empty: "stakePosition scenarioDb = []" by (simp add: scenario_defs)
  have timed: "list_all (wellTimed defaultConfig) coolingOps"
    and timed': "list_all (wellTimed defaultConfig)
                   (coolingOps @ [FinalizeClose 1700604800 ''alice'' 7])"
    by (simp_all add: coolingOps_def defaultConfig_def)
  have rows: "stakePosition coolingDb = [coolingPosition]" by (simp add: scenario_defs)
  have vals: "pendingPrincipal coolingPosition = Some 950000000"
    "cooldownEnd coolingPosition = Some 1700604800" "isActive coolingPosition = False"
    "pendingPrincipal closedPosition = Some 0" "cooldownEnd closedPosition = Some 0"
    "isActive closedPosition = False" "pda closedPosition = (''alice'', 7)"
    by (simp_all add: scenario_defs closedPosition_def)
  from cooldown_coupling [OF empty timed] cooldown_coupling [OF empty timed']
  show ?thesis
    by (simp add: run_cooling run_closed rows vals)
qed

lemma stray_sweep:
  "handleCooldownFinalization strayDb 1700604800
     = (strayDb \<lparr> stakePosition := [sweptPosition] \<rparr>,
        Swept 1 1 [RowFinalized (sweepEntry strayPosition)])"
proof -
  have totals: "sweptTotal 0 1000000000 = Some 0" "sweptTotal 0 1500000000 = Some 0"
    by code_simp+
  show ?thesis
    by (simp add: handleCooldownFinalization_def positionsToFinalize_def readyToFinalize_def
        finalizePosition_def updatePositionById_def strayDb_def strayPosition_def
        sweptPosition_def scenario_defs totals)
qed

text \<open>
  Against claim C9 as stated. After \<open>stakeTokens\<close>, \<open>unstakeTokens\<close> and
  \<open>finalizeUnstake\<close> the position is inactive and finalized, and its \<open>cooldownEnd\<close> is
  0, which is not null: \<open>finalizeUnstake\<close> writes \<open>BigInt(0)\<close>. The sweep selects only
  active rows that carry a cooldown; on such a row its loop leaves \<open>pendingPrincipal\<close> 0
  with \<open>cooldownEnd\<close> null.
\<close>

theorem cooldown_null_counterexample:
  "run defaultConfig scenarioOps (scenarioDb, [])
     = (coolingDb \<lparr> stakePosition := [closedPosition] \<rparr>, [(''alice'', 7)])
   \<and> pda closedPosition = (''alice'', 7)
   \<and> isActive closedPosition = False
   \<and> cooldownEnd closedPosition = Some 0
   \<and> cooldownEnd closedPosition \<noteq> None
   \<and> pendingPrincipal closedPosition = Some 0
   \<and> handleCooldownFinalization strayDb 1700604800
       = (strayDb \<lparr> stakePosition := [sweptPosition] \<rparr>,
          Swept 1 1 [RowFinalized (sweepEntry strayPosition)])
   \<and> pendingPrincipal sweptPosition = Some 0
   \<and> cooldownEnd sweptPosition = None"
  by (simp add: scenarioOps_def stake_scenario unstake_scenario finalize_scenario stray_sweep)
     (simp add: closedPosition_def sweptPosition_def strayPosition_def scenario_defs)

end
